theory Spec2Isabelle
  imports Main "HOL-Library.Word"
begin

unbundle bit_operations_syntax

section \<open>Data model of the reactor (src/src/tepoll.cpp)\<close>

text \<open>
  Byte arrays and strings are character lists. A pointer to a socket object is an
  address into an explicit store of socket objects; address \<open>0\<close> is the null pointer.
\<close>

type_synonym QByteArray = string
type_synonym addr = nat

definition NULL :: addr where
  "NULL = 0"

text \<open>\<open>const int MaxEvents = 128\<close>.\<close>

definition MaxEvents :: int where
  "MaxEvents = 128"

text \<open>
  Constants of \<open>sys/epoll.h\<close> and \<open>errno.h\<close> on Linux, which the source includes:
  the event bits and the two error numbers the reactor tests for.
\<close>

definition EPOLLIN :: "32 word" where
  "EPOLLIN = 0x001"

definition EPOLLOUT :: "32 word" where
  "EPOLLOUT = 0x004"

definition EPOLLET :: "32 word" where
  "EPOLLET = 0x80000000"

definition ENOENT :: int where
  "ENOENT = 2"

definition EEXIST :: int where
  "EEXIST = 17"

datatype ctl_op = EPOLL_CTL_ADD | EPOLL_CTL_DEL | EPOLL_CTL_MOD

text \<open>\<open>struct epoll_event\<close>: the event mask and the user pointer \<open>data.ptr\<close>.\<close>

record epoll_event =
  ev_events :: "32 word"
  data_ptr :: addr

text \<open>
  \<open>TSendBuffer\<close> is created by \<open>TEpollSocket::createSendBuffer\<close>, whose code is not
  among the source files; nothing is assumed of it: a buffer is the tuple of the
  arguments it is created from (the response bytes, the file of the body, the
  auto-remove flag and the access logger).
\<close>

record TSendBuffer =
  sb_data :: QByteArray
  sb_file :: string
  sb_autoRemove :: bool
  sb_logger :: string

definition createSendBuffer4 :: "QByteArray \<Rightarrow> string \<Rightarrow> bool \<Rightarrow> string \<Rightarrow> TSendBuffer" where
  "createSendBuffer4 dat fi autoRemove logger =
     \<lparr>sb_data = dat, sb_file = fi, sb_autoRemove = autoRemove, sb_logger = logger\<rparr>"

definition createSendBuffer :: "QByteArray \<Rightarrow> TSendBuffer" where
  "createSendBuffer dat = createSendBuffer4 dat [] False []"

text \<open>
  \<open>THttpRequestHeader\<close>: the raw header fields and the cookies of the request, with the
  two lookups the reactor uses. A missing field reads as the empty byte array.
\<close>

record THttpRequestHeader =
  rawHeaders :: "(QByteArray \<times> QByteArray) list"
  cookies :: "(QByteArray \<times> QByteArray) list"

definition emptyHeader :: THttpRequestHeader where
  "emptyHeader = \<lparr>rawHeaders = [], cookies = []\<rparr>"

definition rawHeader :: "THttpRequestHeader \<Rightarrow> QByteArray \<Rightarrow> QByteArray" where
  "rawHeader h k = (case map_of (rawHeaders h) k of None \<Rightarrow> [] | Some v \<Rightarrow> v)"

definition cookie :: "THttpRequestHeader \<Rightarrow> QByteArray \<Rightarrow> QByteArray" where
  "cookie h k = (case map_of (cookies h) k of None \<Rightarrow> [] | Some v \<Rightarrow> v)"

text \<open>\<open>TSession\<close>: the session identifier and the stored values; a default-constructed
  session has the empty identifier.\<close>

record TSession =
  session_id :: QByteArray
  session_data :: "(string \<times> string) list"

definition TSession_default :: TSession where
  "TSession_default = \<lparr>session_id = [], session_data = []\<rparr>"

subsection \<open>Queued actions: class \<open>TSendData\<close>\<close>

text \<open>
  \<open>enum Method { Disconnect, Send, SwitchToWebSocket }\<close>; the field \<open>method\<close> (here \<open>sd_method\<close>) is an
  \<open>int\<close>, and the dispatch loop has a \<open>default\<close> branch for any other value.
\<close>

definition Disconnect :: int where
  "Disconnect = 0"

definition Send :: int where
  "Send = 1"

definition SwitchToWebSocket :: int where
  "SwitchToWebSocket = 2"

record TSendData =
  sd_method :: int
  uuid :: QByteArray
  buffer :: "TSendBuffer option"
  header :: THttpRequestHeader

text \<open>The two constructors of \<open>TSendData\<close>; a null buffer pointer is \<open>None\<close>.\<close>

definition TSendData_buf :: "int \<Rightarrow> QByteArray \<Rightarrow> TSendBuffer option \<Rightarrow> TSendData" where
  "TSendData_buf m u buf = \<lparr>sd_method = m, uuid = u, buffer = buf, header = emptyHeader\<rparr>"

definition TSendData_hdr :: "int \<Rightarrow> QByteArray \<Rightarrow> THttpRequestHeader \<Rightarrow> TSendData" where
  "TSendData_hdr m u h = \<lparr>sd_method = m, uuid = u, buffer = None, header = h\<rparr>"

subsection \<open>Connections: class \<open>TEpollSocket\<close> and its subclass \<open>TEpollWebSocket\<close>\<close>

datatype socket_mode = HttpMode | WebSocketMode

text \<open>
  Modelled from the spec: the class \<open>TEpollSocket\<close> (tepollsocket.cpp) is not among
  the source files. Following section 3 of the specification a connection has a
  descriptor, a UUID, a peer address, a protocol mode and an ordered outgoing buffer;
  \<open>closed\<close> records that \<open>close()\<close> was called on the object and \<open>retired\<close> that
  \<open>deleteLater()\<close> scheduled it for deferred destruction. A WebSocket connection also
  keeps the request header it was constructed from.
\<close>

record TEpollSocket =
  socketDescriptor :: int
  socketUuid :: QByteArray
  clientAddress :: string
  mode :: socket_mode
  sendBuf :: "TSendBuffer option list"
  closed :: bool
  retired :: bool
  reqHeader :: THttpRequestHeader

text \<open>
  Modelled from the spec: \<open>TEpollSocket::enqueueSendData\<close> (tepollsocket.cpp) is
  missing; by section 4.1 a Send appends to the connection's outgoing buffer.
\<close>

definition enqueueSendData :: "TSendBuffer option \<Rightarrow> TEpollSocket \<Rightarrow> TEpollSocket" where
  "enqueueSendData buf sock = sock\<lparr>sendBuf := sendBuf sock @ [buf]\<rparr>"

text \<open>
  Modelled from the spec: \<open>TEpollSocket::close\<close> (tepollsocket.cpp) is missing; by
  section 4.1 a Disconnect closes the descriptor. The object records that it was closed.
\<close>

definition close :: "TEpollSocket \<Rightarrow> TEpollSocket" where
  "close sock = sock\<lparr>closed := True\<rparr>"

text \<open>
  Modelled from the spec: \<open>deleteLater\<close> is missing (it is Qt's); by section 4.1 it
  schedules the connection object for deferred destruction, which retires it.
\<close>

definition deleteLater :: "TEpollSocket \<Rightarrow> TEpollSocket" where
  "deleteLater sock = sock\<lparr>retired := True\<rparr>"

text \<open>
  Modelled from the spec: \<open>TEpollSocket::setSocketDescpriter\<close> (tepollsocket.cpp) is
  missing; the setter overwrites the descriptor field, which is how the upgrade of
  section 4.1 hands the descriptor over without closing it.
\<close>

definition setSocketDescpriter :: "int \<Rightarrow> TEpollSocket \<Rightarrow> TEpollSocket" where
  "setSocketDescpriter d sock = sock\<lparr>socketDescriptor := d\<rparr>"

text \<open>
  Modelled from the spec: the constructor \<open>TEpollWebSocket(descriptor, address, header)\<close>
  (tepollwebsocket.cpp) is missing; by section 4.1 it builds a new connection in
  WebSocket mode that takes over the given descriptor. Its UUID is the one generated
  for the new object.
\<close>

definition new_TEpollWebSocket ::
  "QByteArray \<Rightarrow> int \<Rightarrow> string \<Rightarrow> THttpRequestHeader \<Rightarrow> TEpollSocket" where
  "new_TEpollWebSocket u d a h =
     \<lparr>socketDescriptor = d, socketUuid = u, clientAddress = a, mode = WebSocketMode,
      sendBuf = [], closed = False, retired = False, reqHeader = h\<rparr>"

subsection \<open>Observable effects\<close>

text \<open>
  The log calls of the two source files, one constructor per call site, and the other
  calls that leave the modelled state: the system call \<open>epoll_ctl\<close>, the start of the
  worker for the opening event, and the endpoint callbacks.
\<close>

datatype event =
    SystemError_epoll_wait int
  | SystemError_epoll_ctl ctl_op int int
  | SystemDebug_epoll_ctl ctl_op int
  | SystemDebug_switch
  | SystemDebug_secKey QByteArray
  | SystemError_logic
  | Sys_epoll_ctl ctl_op int "(32 word \<times> addr) option"
  | StartWorkerForOpening addr TSession
  | SystemDebug_found_endpoint string
  | SystemDebug_opcode int
  | Error_invalid_logic
  | Warn_invalid_opcode int
  | Call_onOpen TSession
  | Call_onTextReceived string
  | Call_onBinaryReceived QByteArray
  | Call_onClose
  | Call_onPing
  | Call_onPong

subsection \<open>The environment\<close>

text \<open>
  Everything the two source files call but do not define is a parameter. The kernel's
  side of the readiness mechanism is a state of an arbitrary type \<open>'k\<close>, and
  \<open>tf_epoll_ctl\<close> (tfcore_unix.h) maps it, the epoll descriptor, the operation, the
  descriptor and the event argument (\<open>None\<close> for a null pointer) to the return value,
  \<open>errno\<close> and the kernel's next state. \<open>createUuid\<close> is the UUID generated for the
  object allocated at an address, \<open>handshakeResponse\<close> the bytes of
  \<open>ws->handshakeResponse().toByteArray()\<close>, \<open>findSession\<close> is
  \<open>TSessionManager::findSession\<close> and \<open>sessionName\<close> is \<open>TSession::sessionName()\<close>.
\<close>

record 'k env =
  tf_epoll_ctl :: "'k \<Rightarrow> int \<Rightarrow> ctl_op \<Rightarrow> int \<Rightarrow> (32 word \<times> addr) option \<Rightarrow> int \<times> int \<times> 'k"
  createUuid :: "addr \<Rightarrow> QByteArray"
  handshakeResponse :: "TEpollSocket \<Rightarrow> QByteArray"
  findSession :: "QByteArray \<Rightarrow> TSession"
  sessionName :: QByteArray

subsection \<open>The reactor's state: class \<open>TEpoll\<close>\<close>

text \<open>
  \<open>epollFd\<close>, \<open>events\<close>, \<open>polling\<close>, \<open>numEvents\<close>, \<open>eventIterator\<close>,
  \<open>pollingSockets\<close> and \<open>sendRequests\<close> are the members of \<open>TEpoll\<close>.
  \<open>pollingSockets\<close> is a \<open>QMap\<close> from UUID to socket pointer. \<open>kernel\<close> is the
  kernel's state behind \<open>epollFd\<close>, \<open>heap\<close> the store of socket objects,
  \<open>nextAddr\<close> the address the next \<open>new\<close> returns, and \<open>trace\<close> the effects so
  far, oldest first. The queue \<open>sendRequests\<close> is the list of the queued actions,
  head first.
\<close>

record 'k TEpoll =
  kernel :: 'k
  epollFd :: int
  events :: "epoll_event list"
  polling :: bool
  numEvents :: int
  eventIterator :: int
  pollingSockets :: "QByteArray \<rightharpoonup> addr"
  sendRequests :: "TSendData list"
  heap :: "addr \<Rightarrow> TEpollSocket"
  nextAddr :: addr
  trace :: "event list"

text \<open>
  Modelled from the spec: the queue class of \<open>sendRequests\<close> is missing; by section 4.2
  \<open>enqueue(action)\<close> appends to the tail.
\<close>

definition enqueue :: "TSendData \<Rightarrow> 'k TEpoll \<Rightarrow> 'k TEpoll" where
  "enqueue sd s = s\<lparr>sendRequests := sendRequests s @ [sd]\<rparr>"

text \<open>
  Modelled from the spec: the queue class of \<open>sendRequests\<close> is missing; by section 4.2
  draining removes and returns everything currently queued, preserving enqueue order.
\<close>

definition dequeue :: "'k TEpoll \<Rightarrow> TSendData list \<times> 'k TEpoll" where
  "dequeue s = (sendRequests s, s\<lparr>sendRequests := []\<rparr>)"

text \<open>Recording one effect.\<close>

definition emit :: "event \<Rightarrow> 'k TEpoll \<Rightarrow> 'k TEpoll" where
  "emit e s = s\<lparr>trace := trace s @ [e]\<rparr>"

section \<open>The event list: \<open>wait\<close>, \<open>next\<close>, \<open>canReceive\<close>, \<open>canSend\<close>\<close>

datatype fault = OutOfBounds

text \<open>Reading \<open>events[i]\<close>: an index outside the array is a fault, not a value.\<close>

definition readEvent :: "'k TEpoll \<Rightarrow> int \<Rightarrow> fault + epoll_event" where
  "readEvent s i =
     (if 0 \<le> i \<and> i < int (length (events s)) then Inr (events s ! nat i)
      else Inl OutOfBounds)"

text \<open>
  \<open>TEpoll::wait\<close>. The result of \<open>tf_epoll_wait\<close> is a parameter: its return value
  \<open>n\<close>, the value of \<open>errno\<close> and the entries the kernel wrote to the front of the
  array.
\<close>

definition TEpoll_wait :: "int \<Rightarrow> int \<Rightarrow> epoll_event list \<Rightarrow> 'k TEpoll \<Rightarrow> int \<times> 'k TEpoll" where
  "TEpoll_wait n err ready s =
     (let s1 = s\<lparr>eventIterator := 0, polling := True\<rparr>;
          s2 = s1\<lparr>events := take (length (events s1)) (ready @ drop (length ready) (events s1)),
                  numEvents := n\<rparr>;
          s3 = s2\<lparr>polling := False\<rparr>;
          s4 = (if n < 0 then emit (SystemError_epoll_wait err) s3 else s3)
      in (n, s4))"

text \<open>\<open>TEpoll::next\<close>: the pointer of the next ready event, or null at the end.\<close>

definition TEpoll_next :: "'k TEpoll \<Rightarrow> (fault + addr) \<times> 'k TEpoll" where
  "TEpoll_next s =
     (if eventIterator s < numEvents s then
        (case readEvent s (eventIterator s) of
           Inl e \<Rightarrow> (Inl e, s)
         | Inr ev \<Rightarrow> (Inr (data_ptr ev), s\<lparr>eventIterator := eventIterator s + 1\<rparr>))
      else (Inr NULL, s))"

definition canReceive :: "'k TEpoll \<Rightarrow> fault + bool" where
  "canReceive s =
     (if eventIterator s \<le> 0 then Inr False
      else (case readEvent s (eventIterator s - 1) of
              Inl e \<Rightarrow> Inl e
            | Inr ev \<Rightarrow> Inr (ev_events ev AND EPOLLIN \<noteq> 0)))"

definition canSend :: "'k TEpoll \<Rightarrow> fault + bool" where
  "canSend s =
     (if eventIterator s \<le> 0 then Inr False
      else (case readEvent s (eventIterator s - 1) of
              Inl e \<Rightarrow> Inl e
            | Inr ev \<Rightarrow> Inr (ev_events ev AND EPOLLOUT \<noteq> 0)))"

section \<open>Registration: \<open>addPoll\<close>, \<open>modifyPoll\<close>, \<open>deletePoll\<close>\<close>

text \<open>
  One call of \<open>tf_epoll_ctl(epollFd, op, fd, ev)\<close> followed by \<open>int err = errno\<close>: the
  call is recorded, the kernel moves on, and the return value and \<open>errno\<close> come back.
\<close>

definition call_epoll_ctl ::
  "'k env \<Rightarrow> ctl_op \<Rightarrow> int \<Rightarrow> (32 word \<times> addr) option \<Rightarrow> 'k TEpoll \<Rightarrow> (int \<times> int) \<times> 'k TEpoll" where
  "call_epoll_ctl env op fd ev s =
     (case tf_epoll_ctl env (kernel s) (epollFd s) op fd ev of
        (ret, err, k') \<Rightarrow> ((ret, err), (emit (Sys_epoll_ctl op fd ev) s)\<lparr>kernel := k'\<rparr>))"

text \<open>\<open>TEpoll::addPoll\<close>; the result \<open>!ret\<close> is true exactly when \<open>ret\<close> is zero.\<close>

definition addPoll :: "'k env \<Rightarrow> addr \<Rightarrow> 32 word \<Rightarrow> 'k TEpoll \<Rightarrow> bool \<times> 'k TEpoll" where
  "addPoll env socket evs s =
     (if evs = 0 then (False, s)
      else
        (case call_epoll_ctl env EPOLL_CTL_ADD (socketDescriptor (heap s socket))
                (Some (evs, socket)) s of
           ((ret, err), s1) \<Rightarrow>
             (ret = 0,
              (if ret < 0 then
                 (if err \<noteq> EEXIST
                  then emit (SystemError_epoll_ctl EPOLL_CTL_ADD
                               (socketDescriptor (heap s1 socket)) err) s1
                  else s1)
               else
                 (emit (SystemDebug_epoll_ctl EPOLL_CTL_ADD
                          (socketDescriptor (heap s1 socket))) s1)
                   \<lparr>pollingSockets :=
                      (pollingSockets s1)(socketUuid (heap s1 socket) \<mapsto> socket)\<rparr>))))"

text \<open>\<open>TEpoll::modifyPoll\<close>.\<close>

definition modifyPoll :: "'k env \<Rightarrow> addr \<Rightarrow> 32 word \<Rightarrow> 'k TEpoll \<Rightarrow> bool \<times> 'k TEpoll" where
  "modifyPoll env socket evs s =
     (if evs = 0 then (False, s)
      else
        (case call_epoll_ctl env EPOLL_CTL_MOD (socketDescriptor (heap s socket))
                (Some (evs, socket)) s of
           ((ret, err), s1) \<Rightarrow>
             (ret = 0,
              (if ret < 0
               then emit (SystemError_epoll_ctl EPOLL_CTL_MOD
                            (socketDescriptor (heap s1 socket)) err) s1
               else emit (SystemDebug_epoll_ctl EPOLL_CTL_MOD
                            (socketDescriptor (heap s1 socket))) s1))))"

text \<open>
  \<open>TEpoll::deletePoll\<close>. \<open>pollingSockets.remove(key)\<close> returns the number of entries
  removed; when it is zero the function returns before any system call.
\<close>

definition deletePoll :: "'k env \<Rightarrow> addr \<Rightarrow> 'k TEpoll \<Rightarrow> bool \<times> 'k TEpoll" where
  "deletePoll env socket s =
     (if pollingSockets s (socketUuid (heap s socket)) = None then (False, s)
      else
        (case call_epoll_ctl env EPOLL_CTL_DEL (socketDescriptor (heap s socket)) None
                (s\<lparr>pollingSockets := (pollingSockets s)(socketUuid (heap s socket) := None)\<rparr>) of
           ((ret, err), s1) \<Rightarrow>
             (ret = 0,
              (if ret < 0 \<and> err \<noteq> ENOENT
               then emit (SystemError_epoll_ctl EPOLL_CTL_DEL
                            (socketDescriptor (heap s1 socket)) err) s1
               else emit (SystemDebug_epoll_ctl EPOLL_CTL_DEL
                            (socketDescriptor (heap s1 socket))) s1))))"

section \<open>Producers: \<open>setSendData\<close>, \<open>setDisconnect\<close>, \<open>setSwitchToWebSocket\<close>\<close>

text \<open>The body of a response is a \<open>QBuffer\<close> or a \<open>QFile\<close>; a null body is \<open>None\<close>.\<close>

datatype QIODevice = QBuffer QByteArray | QFile string

definition setSendData5 ::
  "QByteArray \<Rightarrow> QByteArray \<Rightarrow> QIODevice option \<Rightarrow> bool \<Rightarrow> string \<Rightarrow> 'k TEpoll \<Rightarrow> 'k TEpoll" where
  "setSendData5 u hdr body autoRemove accessLogger s =
     (let response = (case body of Some (QBuffer d) \<Rightarrow> hdr @ d | _ \<Rightarrow> hdr);
          fi = (case body of Some (QFile f) \<Rightarrow> f | _ \<Rightarrow> []);
          sendbuf = createSendBuffer4 response fi autoRemove accessLogger
      in enqueue (TSendData_buf Send u (Some sendbuf)) s)"

definition setSendData :: "QByteArray \<Rightarrow> QByteArray \<Rightarrow> 'k TEpoll \<Rightarrow> 'k TEpoll" where
  "setSendData u dat s = enqueue (TSendData_buf Send u (Some (createSendBuffer dat))) s"

definition setDisconnect :: "QByteArray \<Rightarrow> 'k TEpoll \<Rightarrow> 'k TEpoll" where
  "setDisconnect u s = enqueue (TSendData_buf Disconnect u None) s"

definition setSwitchToWebSocket ::
  "QByteArray \<Rightarrow> THttpRequestHeader \<Rightarrow> 'k TEpoll \<Rightarrow> 'k TEpoll" where
  "setSwitchToWebSocket u h s = enqueue (TSendData_hdr SwitchToWebSocket u h) s"

text \<open>A request to enqueue, as data: one constructor per producer above.\<close>

datatype request =
    ReqSend QByteArray QByteArray
  | ReqSend5 QByteArray QByteArray "QIODevice option" bool string
  | ReqDisconnect QByteArray
  | ReqSwitch QByteArray THttpRequestHeader

fun produce :: "request \<Rightarrow> 'k TEpoll \<Rightarrow> 'k TEpoll" where
  "produce (ReqSend u dat) s = setSendData u dat s"
| "produce (ReqSend5 u hdr body ar lg) s = setSendData5 u hdr body ar lg s"
| "produce (ReqDisconnect u) s = setDisconnect u s"
| "produce (ReqSwitch u h) s = setSwitchToWebSocket u h s"

fun produceAll :: "request list \<Rightarrow> 'k TEpoll \<Rightarrow> 'k TEpoll" where
  "produceAll [] s = s"
| "produceAll (r # rs) s = produceAll rs (produce r s)"

section \<open>The consumer: \<open>dispatchSendData\<close>\<close>

text \<open>
  \<open>pollingSockets[key]\<close> on the non-const \<open>QMap\<close>: a key that is absent is inserted
  with a default-constructed value, the null pointer, which is returned.
\<close>

definition lookupSocket :: "QByteArray \<Rightarrow> 'k TEpoll \<Rightarrow> addr \<times> 'k TEpoll" where
  "lookupSocket k s =
     (case pollingSockets s k of
        None \<Rightarrow> (NULL, s\<lparr>pollingSockets := (pollingSockets s)(k \<mapsto> NULL)\<rparr>)
      | Some p \<Rightarrow> (p, s))"

text \<open>A method call on the socket object at an address.\<close>

definition onSocket :: "addr \<Rightarrow> (TEpollSocket \<Rightarrow> TEpollSocket) \<Rightarrow> 'k TEpoll \<Rightarrow> 'k TEpoll" where
  "onSocket p f s = s\<lparr>heap := (heap s)(p := f (heap s p))\<rparr>"

text \<open>\<open>new TEpollWebSocket(...)\<close>: the object is stored at the next free address.\<close>

definition allocWebSocket ::
  "'k env \<Rightarrow> int \<Rightarrow> string \<Rightarrow> THttpRequestHeader \<Rightarrow> 'k TEpoll \<Rightarrow> addr \<times> 'k TEpoll" where
  "allocWebSocket env d a h s =
     (nextAddr s,
      s\<lparr>heap := (heap s)(nextAddr s := new_TEpollWebSocket (createUuid env (nextAddr s)) d a h),
        nextAddr := Suc (nextAddr s)\<rparr>)"

text \<open>
  The branch \<open>case TSendData::SwitchToWebSocket\<close>. \<open>Q_ASSERT(sd->buffer == NULL)\<close>
  expands to nothing in a release build and holds for every action built by
  \<open>setSwitchToWebSocket\<close>.
\<close>

definition switchToWebSocket :: "'k env \<Rightarrow> TSendData \<Rightarrow> addr \<Rightarrow> 'k TEpoll \<Rightarrow> 'k TEpoll" where
  "switchToWebSocket env sd sock s =
     (let s1 = emit SystemDebug_switch s;
          secKey = rawHeader (header sd) ''Sec-WebSocket-Key'';
          s2 = emit (SystemDebug_secKey secKey) s1;
          (ws, s3) = allocWebSocket env (socketDescriptor (heap s2 sock))
                       (clientAddress (heap s2 sock)) (header sd) s2;
          s4 = snd (deletePoll env sock s3);
          s5 = onSocket sock (setSocketDescpriter 0) s4;
          s6 = onSocket sock deleteLater s5;
          response = handshakeResponse env (heap s6 ws);
          s7 = onSocket ws (enqueueSendData (Some (createSendBuffer response))) s6;
          s8 = snd (addPoll env ws (EPOLLIN OR EPOLLOUT OR EPOLLET) s7);
          sessionId = cookie (header sd) (sessionName env);
          session = (if sessionId \<noteq> [] then findSession env sessionId else TSession_default)
      in emit (StartWorkerForOpening ws session) s8)"

text \<open>
  The body of the loop of \<open>dispatchSendData\<close> for one action. The \<open>delete\<close> of the
  action and of an unused buffer frees memory only and has no counterpart here.
\<close>

definition applySendData :: "'k env \<Rightarrow> TSendData \<Rightarrow> 'k TEpoll \<Rightarrow> 'k TEpoll" where
  "applySendData env sd s =
     (case lookupSocket (uuid sd) s of
        (sock, s1) \<Rightarrow>
          if sock \<noteq> NULL \<and> socketDescriptor (heap s1 sock) > 0 then
            (if sd_method sd = Send then
               snd (modifyPoll env sock (EPOLLIN OR EPOLLOUT OR EPOLLET)
                      (onSocket sock (enqueueSendData (buffer sd)) s1))
             else if sd_method sd = Disconnect then
               onSocket sock deleteLater (onSocket sock close (snd (deletePoll env sock s1)))
             else if sd_method sd = SwitchToWebSocket then
               switchToWebSocket env sd sock s1
             else emit SystemError_logic s1)
          else s1)"

fun dispatchLoop :: "'k env \<Rightarrow> TSendData list \<Rightarrow> 'k TEpoll \<Rightarrow> 'k TEpoll" where
  "dispatchLoop env [] s = s"
| "dispatchLoop env (sd # rest) s = dispatchLoop env rest (applySendData env sd s)"

definition dispatchSendData :: "'k env \<Rightarrow> 'k TEpoll \<Rightarrow> 'k TEpoll" where
  "dispatchSendData env s = (case dequeue s of (dataList, s1) \<Rightarrow> dispatchLoop env dataList s1)"

section \<open>The frame worker (src/src/twebsocketworker.cpp)\<close>

text \<open>
  The declaration of \<open>enum TWebSocketFrame::OpCode\<close> is missing. The specification
  names its closed set (Continuation/Open, Text, Binary, Close, Ping, Pong) and follows
  RFC 6455, whose opcode numbers the six constants below carry.
\<close>

text \<open>Modelled from the spec: the opcode of a continuation frame, which also tags the
  opening event.\<close>

definition Continuation :: int where
  "Continuation = 0x0"

text \<open>Modelled from the spec: the opcode of a text frame.\<close>

definition TextFrame :: int where
  "TextFrame = 0x1"

text \<open>Modelled from the spec: the opcode of a binary frame.\<close>

definition BinaryFrame :: int where
  "BinaryFrame = 0x2"

text \<open>Modelled from the spec: the opcode of a close frame.\<close>

definition Close :: int where
  "Close = 0x8"

text \<open>Modelled from the spec: the opcode of a ping frame.\<close>

definition Ping :: int where
  "Ping = 0x9"

text \<open>Modelled from the spec: the opcode of a pong frame.\<close>

definition Pong :: int where
  "Pong = 0xA"

text \<open>An entry of \<open>payloadList\<close>: a \<open>QVariant\<close> holding a string, a byte array, an
  integer, or a value of any other type.\<close>

datatype QVariant =
    QVariant_String string
  | QVariant_ByteArray QByteArray
  | QVariant_Int int
  | QVariant_Other

text \<open>
  Modelled from the spec: the class \<open>TWebSocketEndpoint\<close> is missing. By section 4.4 an
  endpoint has the six callbacks, and a callback may populate the per-invocation output
  list; the value of a callback here is the list of entries it appends.
\<close>

record TWebSocketEndpoint =
  onOpen :: "TSession \<Rightarrow> QVariant list"
  onTextReceived :: "string \<Rightarrow> QVariant list"
  onBinaryReceived :: "QByteArray \<Rightarrow> QVariant list"
  onClose :: "QVariant list"
  onPing :: "QVariant list"
  onPong :: "QVariant list"

text \<open>
  Modelled from the spec: \<open>TWebSocketEndpoint::closeWebSocket\<close> is missing; by section
  4.4 the close directive is an entry of the output list, and this function puts it
  at the end of the list.
\<close>

definition closeWebSocket :: "QVariant list \<Rightarrow> QVariant list" where
  "closeWebSocket payloadList = payloadList @ [QVariant_Int Close]"

text \<open>
  Modelled from the spec: \<open>TWebSocketEndpoint::sendPong\<close> is missing; by section 4.4
  the send-pong directive is an entry of the output list, and this function puts it at
  the end of the list.
\<close>

definition sendPong :: "QVariant list \<Rightarrow> QVariant list" where
  "sendPong payloadList = payloadList @ [QVariant_Int Pong]"

text \<open>
  What the worker calls outside the two source files: \<open>TUrlRoute::splitPath\<close>,
  \<open>QString::toLower\<close>, the object \<open>TDispatcher<TWebSocketEndpoint>\<close> finds for a
  class name (\<open>None\<close> when there is none), and the bytes of a WebSocket frame with a
  given opcode and payload (\<open>TWebSocketFrame::toByteArray\<close>).
\<close>

record wenv =
  splitPath :: "string \<Rightarrow> string list"
  toLower :: "string \<Rightarrow> string"
  dispatcherObject :: "string \<Rightarrow> TWebSocketEndpoint option"
  frameBytes :: "int \<Rightarrow> QByteArray \<Rightarrow> QByteArray"

record TWebSocketWorker =
  w_socketUuid :: QByteArray
  sessionStore :: TSession
  requestPath :: QByteArray
  opcode :: int
  requestData :: QByteArray

text \<open>The two constructors: the worker of the opening event and the worker of a frame.\<close>

definition TWebSocketWorker_open :: "QByteArray \<Rightarrow> TSession \<Rightarrow> TWebSocketWorker" where
  "TWebSocketWorker_open socket session =
     \<lparr>w_socketUuid = socket, sessionStore = session, requestPath = [],
      opcode = Continuation, requestData = []\<rparr>"

definition TWebSocketWorker_frame ::
  "QByteArray \<Rightarrow> QByteArray \<Rightarrow> int \<Rightarrow> QByteArray \<Rightarrow> TWebSocketWorker" where
  "TWebSocketWorker_frame socket path opCode dat =
     \<lparr>w_socketUuid = socket, sessionStore = TSession_default, requestPath = path,
      opcode = opCode, requestData = dat\<rparr>"

text \<open>\<open>QStringList::value(0)\<close>: the first element, or the empty string.\<close>

definition value0 :: "string list \<Rightarrow> string" where
  "value0 xs = (case xs of [] \<Rightarrow> [] | x # _ \<Rightarrow> x)"

text \<open>
  The static functions of \<open>TEpollWebSocket\<close> that the worker calls
  (tepollwebsocket.cpp) are missing; each is modelled below from section 4.4, by which
  an output entry becomes a Send or a Disconnect action. A frame is queued through
  \<open>TEpoll::setSendData\<close>, a close through \<open>TEpoll::setDisconnect\<close>.
\<close>

text \<open>Modelled from the spec: \<open>TEpollWebSocket::sendText\<close> is missing; a text payload
  becomes a Send of a text frame.\<close>

definition ws_sendText :: "wenv \<Rightarrow> QByteArray \<Rightarrow> string \<Rightarrow> 'k TEpoll \<Rightarrow> 'k TEpoll" where
  "ws_sendText we u txt s = setSendData u (frameBytes we TextFrame txt) s"

text \<open>Modelled from the spec: \<open>TEpollWebSocket::sendBinary\<close> is missing; a binary
  payload becomes a Send of a binary frame.\<close>

definition ws_sendBinary :: "wenv \<Rightarrow> QByteArray \<Rightarrow> QByteArray \<Rightarrow> 'k TEpoll \<Rightarrow> 'k TEpoll" where
  "ws_sendBinary we u bin s = setSendData u (frameBytes we BinaryFrame bin) s"

text \<open>Modelled from the spec: \<open>TEpollWebSocket::sendPing\<close> is missing; a send-ping
  directive becomes a Send of a ping frame.\<close>

definition ws_sendPing :: "wenv \<Rightarrow> QByteArray \<Rightarrow> 'k TEpoll \<Rightarrow> 'k TEpoll" where
  "ws_sendPing we u s = setSendData u (frameBytes we Ping []) s"

text \<open>Modelled from the spec: \<open>TEpollWebSocket::sendPong\<close> is missing; a send-pong
  directive becomes a Send of a pong frame.\<close>

definition ws_sendPong :: "wenv \<Rightarrow> QByteArray \<Rightarrow> 'k TEpoll \<Rightarrow> 'k TEpoll" where
  "ws_sendPong we u s = setSendData u (frameBytes we Pong []) s"

text \<open>Modelled from the spec: \<open>TEpollWebSocket::disconnect\<close> is missing; a close
  directive becomes a Disconnect.\<close>

definition ws_disconnect :: "QByteArray \<Rightarrow> 'k TEpoll \<Rightarrow> 'k TEpoll" where
  "ws_disconnect u s = setDisconnect u s"

text \<open>
  The \<open>switch (opcode)\<close> of \<open>TWebSocketWorker::run\<close>: the callback that runs, and the
  output list of the endpoint afterwards. The endpoint is a fresh object, its list
  starts empty.
\<close>

definition handleOpcode ::
  "TWebSocketEndpoint \<Rightarrow> TWebSocketWorker \<Rightarrow> 'k TEpoll \<Rightarrow> QVariant list \<times> 'k TEpoll" where
  "handleOpcode ep w s =
     (if opcode w = Continuation then
        (if session_id (sessionStore w) = []
         then (onOpen ep (sessionStore w), emit (Call_onOpen (sessionStore w)) s)
         else ([], emit Error_invalid_logic s))
      else if opcode w = TextFrame then
        (onTextReceived ep (requestData w), emit (Call_onTextReceived (requestData w)) s)
      else if opcode w = BinaryFrame then
        (onBinaryReceived ep (requestData w), emit (Call_onBinaryReceived (requestData w)) s)
      else if opcode w = Close then
        (closeWebSocket (onClose ep), emit Call_onClose s)
      else if opcode w = Ping then
        (sendPong (onPing ep), emit Call_onPing s)
      else if opcode w = Pong then
        (onPong ep, emit Call_onPong s)
      else ([], emit (Warn_invalid_opcode (opcode w)) s))"

text \<open>The body of the loop over \<open>payloadList\<close> for one entry.\<close>

definition sendEntry :: "wenv \<Rightarrow> QByteArray \<Rightarrow> QVariant \<Rightarrow> 'k TEpoll \<Rightarrow> 'k TEpoll" where
  "sendEntry we u var s =
     (case var of
        QVariant_String txt \<Rightarrow> ws_sendText we u txt s
      | QVariant_ByteArray bin \<Rightarrow> ws_sendBinary we u bin s
      | QVariant_Int oc \<Rightarrow>
          (if oc = Close then ws_disconnect u s
           else if oc = Ping then ws_sendPing we u s
           else if oc = Pong then ws_sendPong we u s
           else emit Error_invalid_logic s)
      | QVariant_Other \<Rightarrow> emit Error_invalid_logic s)"

fun sendPayload :: "wenv \<Rightarrow> QByteArray \<Rightarrow> QVariant list \<Rightarrow> 'k TEpoll \<Rightarrow> 'k TEpoll" where
  "sendPayload we u [] s = s"
| "sendPayload we u (var # rest) s = sendPayload we u rest (sendEntry we u var s)"

text \<open>The class name \<open>es\<close> that \<open>run\<close> computes from the request path.\<close>

definition endpointName :: "wenv \<Rightarrow> TWebSocketWorker \<Rightarrow> string" where
  "endpointName we w = toLower we (value0 (splitPath we (requestPath w))) @ ''endpoint''"

text \<open>\<open>TWebSocketWorker::run\<close>.\<close>

definition run :: "wenv \<Rightarrow> TWebSocketWorker \<Rightarrow> 'k TEpoll \<Rightarrow> 'k TEpoll" where
  "run we w s =
     (let es = endpointName we w
      in case dispatcherObject we es of
           None \<Rightarrow> s
         | Some ep \<Rightarrow>
             (case handleOpcode ep w
                     (emit (SystemDebug_opcode (opcode w)) (emit (SystemDebug_found_endpoint es) s)) of
                (payloadList, s1) \<Rightarrow> sendPayload we (w_socketUuid w) payloadList s1))"

section \<open>A reference kernel\<close>

text \<open>
  An instance of the kernel parameter that follows epoll_ctl(2): the interest list is
  the list of registered descriptors; adding a registered descriptor fails with
  \<open>EEXIST\<close>, modifying or deleting an unregistered one fails with \<open>ENOENT\<close>.
\<close>

definition linux_epoll_ctl ::
  "int list \<Rightarrow> int \<Rightarrow> ctl_op \<Rightarrow> int \<Rightarrow> (32 word \<times> addr) option \<Rightarrow> int \<times> int \<times> int list" where
  "linux_epoll_ctl k epfd op fd ev =
     (case op of
        EPOLL_CTL_ADD \<Rightarrow> if fd \<in> set k then (- 1, EEXIST, k) else (0, 0, fd # k)
      | EPOLL_CTL_MOD \<Rightarrow> if fd \<in> set k then (0, 0, k) else (- 1, ENOENT, k)
      | EPOLL_CTL_DEL \<Rightarrow> if fd \<in> set k then (0, 0, removeAll fd k) else (- 1, ENOENT, k))"

definition env0 :: "int list env" where
  "env0 = \<lparr>tf_epoll_ctl = linux_epoll_ctl,
           createUuid = (\<lambda>a. ''ws-uuid''),
           handshakeResponse = (\<lambda>ws. ''HTTP/1.1 101 Switching Protocols''),
           findSession = (\<lambda>i. \<lparr>session_id = i, session_data = []\<rparr>),
           sessionName = ''TFSESSION''\<rparr>"

definition sock0 :: TEpollSocket where
  "sock0 = \<lparr>socketDescriptor = 0, socketUuid = [], clientAddress = [], mode = HttpMode,
            sendBuf = [], closed = False, retired = False, reqHeader = emptyHeader\<rparr>"

text \<open>An HTTP connection with descriptor 5 and UUID \<open>u1\<close>, the object at address 1.\<close>

definition http5 :: TEpollSocket where
  "http5 = sock0\<lparr>socketDescriptor := 5, socketUuid := ''u1'', clientAddress := ''10.0.0.1''\<rparr>"

text \<open>The reactor after construction: nothing registered, nothing queued.\<close>

definition init0 :: "int list TEpoll" where
  "init0 = \<lparr>kernel = [], epollFd = 3,
            events = replicate (nat MaxEvents) \<lparr>ev_events = 0, data_ptr = 0\<rparr>,
            polling = False, numEvents = 0, eventIterator = 0, pollingSockets = Map.empty,
            sendRequests = [], heap = (\<lambda>a. sock0), nextAddr = 1, trace = []\<rparr>"

text \<open>The reactor with the connection \<open>http5\<close> allocated at address 1 and registered.\<close>

definition reg5 :: "int list TEpoll" where
  "reg5 = init0\<lparr>kernel := [5], pollingSockets := [''u1'' \<mapsto> 1],
                heap := (\<lambda>a. sock0)(1 := http5), nextAddr := 2\<rparr>"

text \<open>An endpoint that echoes what it receives and emits nothing on control frames.\<close>

definition echo :: TWebSocketEndpoint where
  "echo = \<lparr>onOpen = (\<lambda>session. [QVariant_String ''hello'']),
           onTextReceived = (\<lambda>txt. [QVariant_String txt]),
           onBinaryReceived = (\<lambda>bin. [QVariant_ByteArray bin]),
           onClose = [], onPing = [], onPong = []\<rparr>"

text \<open>
  A worker environment: the path \<open>/chat\<close> splits into \<open>chat\<close>, the classes
  \<open>chatendpoint\<close> and \<open>endpoint\<close> resolve to \<open>echo\<close>, and a frame is its opcode
  tag followed by the payload.
\<close>

definition tagFrame :: "int \<Rightarrow> QByteArray \<Rightarrow> QByteArray" where
  "tagFrame oc payload =
     (if oc = TextFrame then ''text:'' else if oc = BinaryFrame then ''binary:''
      else if oc = Ping then ''ping:'' else if oc = Pong then ''pong:'' else ''other:'')
     @ payload"

definition wenv0 :: wenv where
  "wenv0 = \<lparr>splitPath = (\<lambda>p. if p = [] then [] else [tl p]),
            toLower = (\<lambda>x. x),
            dispatcherObject =
              (\<lambda>n. if n = ''chatendpoint'' \<or> n = ''endpoint'' then Some echo else None),
            frameBytes = tagFrame\<rparr>"

text \<open>The same environment with no endpoint class at all.\<close>

definition nowhere :: wenv where
  "nowhere = wenv0\<lparr>dispatcherObject := (\<lambda>n. None)\<rparr>"

text \<open>The reactor \<open>reg5\<close> after a Disconnect for \<open>u1\<close> has been applied.\<close>

definition gone5 :: "int list TEpoll" where
  "gone5 = applySendData env0 (TSendData_buf Disconnect ''u1'' None) reg5"

text \<open>The connection \<open>http5\<close> known to the kernel but missing from the registry.\<close>

definition unreg5 :: "int list TEpoll" where
  "unreg5 = reg5\<lparr>pollingSockets := Map.empty\<rparr>"

section \<open>The specification's side\<close>

text \<open>
  The action a request of a producer puts on the queue, read off the specification's
  variants \<open>Send{uuid, bytes}\<close>, \<open>Disconnect{uuid}\<close> and
  \<open>UpgradeToWebSocket{uuid, handshakeHeader}\<close>.
\<close>

fun queued :: "request \<Rightarrow> TSendData" where
  "queued (ReqSend u dat) = TSendData_buf Send u (Some (createSendBuffer dat))"
| "queued (ReqSend5 u hdr body ar lg) =
     TSendData_buf Send u (Some (createSendBuffer4
        (case body of Some (QBuffer d) \<Rightarrow> hdr @ d | _ \<Rightarrow> hdr)
        (case body of Some (QFile f) \<Rightarrow> f | _ \<Rightarrow> []) ar lg))"
| "queued (ReqDisconnect u) = TSendData_buf Disconnect u None"
| "queued (ReqSwitch u h) = TSendData_hdr SwitchToWebSocket u h"

text \<open>
  The translation table of section 4.4 in the specification's words: a text payload is
  a Send of a text frame, a binary payload a Send of a binary frame, a close directive a
  Disconnect, a ping or pong directive a Send of that control frame. Any other entry has
  no action.
\<close>

definition spec_entryAction :: "wenv \<Rightarrow> QByteArray \<Rightarrow> QVariant \<Rightarrow> TSendData option" where
  "spec_entryAction we u var =
     (case var of
        QVariant_String txt \<Rightarrow>
          Some (TSendData_buf Send u (Some (createSendBuffer (frameBytes we TextFrame txt))))
      | QVariant_ByteArray bin \<Rightarrow>
          Some (TSendData_buf Send u (Some (createSendBuffer (frameBytes we BinaryFrame bin))))
      | QVariant_Int oc \<Rightarrow>
          (if oc = Close then Some (TSendData_buf Disconnect u None)
           else if oc = Ping
             then Some (TSendData_buf Send u (Some (createSendBuffer (frameBytes we Ping []))))
           else if oc = Pong
             then Some (TSendData_buf Send u (Some (createSendBuffer (frameBytes we Pong []))))
           else None)
      | QVariant_Other \<Rightarrow> None)"

section \<open>Auxiliary facts\<close>

lemmas kernel0_simps = env0_def linux_epoll_ctl_def EEXIST_def ENOENT_def

lemmas state0_simps = reg5_def init0_def http5_def sock0_def emptyHeader_def NULL_def

lemmas mask_simps = EPOLLIN_def EPOLLOUT_def EPOLLET_def

lemmas opcode_simps = Continuation_def TextFrame_def BinaryFrame_def Close_def Ping_def Pong_def

lemmas method_simps = Send_def Disconnect_def SwitchToWebSocket_def

lemmas socket_simps = enqueueSendData_def close_def deleteLater_def setSocketDescpriter_def
  new_TEpollWebSocket_def

subsection \<open>What the registration functions leave alone\<close>

lemma deletePoll_frame:
  "heap (snd (deletePoll env p s)) = heap s
   \<and> nextAddr (snd (deletePoll env p s)) = nextAddr s
   \<and> sendRequests (snd (deletePoll env p s)) = sendRequests s"
  by (simp add: deletePoll_def call_epoll_ctl_def emit_def split_beta)

lemma deletePoll_registry:
  "pollingSockets (snd (deletePoll env p s)) = (pollingSockets s)(socketUuid (heap s p) := None)"
  by (auto simp add: deletePoll_def call_epoll_ctl_def emit_def split_beta)

lemma addPoll_frame:
  "heap (snd (addPoll env p evs s)) = heap s
   \<and> nextAddr (snd (addPoll env p evs s)) = nextAddr s
   \<and> sendRequests (snd (addPoll env p evs s)) = sendRequests s"
  by (simp add: addPoll_def call_epoll_ctl_def emit_def split_beta)

lemma addPoll_registry:
  "pollingSockets (snd (addPoll env p evs s)) k = Some q \<Longrightarrow>
     pollingSockets s k = Some q \<or> q = p"
  by (auto simp add: addPoll_def call_epoll_ctl_def emit_def split_beta split: if_splits)

lemma modifyPoll_frame:
  "heap (snd (modifyPoll env p evs s)) = heap s
   \<and> nextAddr (snd (modifyPoll env p evs s)) = nextAddr s
   \<and> sendRequests (snd (modifyPoll env p evs s)) = sendRequests s
   \<and> pollingSockets (snd (modifyPoll env p evs s)) = pollingSockets s"
  by (simp add: modifyPoll_def call_epoll_ctl_def emit_def split_beta)

subsection \<open>The upgrade branch\<close>

lemma switchToWebSocket_heap:
  assumes "sock \<noteq> nextAddr s"
  shows "heap (switchToWebSocket env sd sock s) =
     (heap s)
       (nextAddr s :=
          enqueueSendData
            (Some (createSendBuffer (handshakeResponse env
               (new_TEpollWebSocket (createUuid env (nextAddr s)) (socketDescriptor (heap s sock))
                  (clientAddress (heap s sock)) (header sd)))))
            (new_TEpollWebSocket (createUuid env (nextAddr s)) (socketDescriptor (heap s sock))
               (clientAddress (heap s sock)) (header sd)),
        sock := deleteLater (setSocketDescpriter 0 (heap s sock)))"
  using assms
  by (simp add: switchToWebSocket_def allocWebSocket_def Let_def onSocket_def emit_def
      addPoll_frame deletePoll_frame fun_upd_twist)

lemma emit_proj:
  "pollingSockets (emit e s) = pollingSockets s" "heap (emit e s) = heap s"
  "nextAddr (emit e s) = nextAddr s" "sendRequests (emit e s) = sendRequests s"
  "kernel (emit e s) = kernel s"
  by (simp_all add: emit_def)

lemma onSocket_proj:
  "pollingSockets (onSocket p f s) = pollingSockets s"
  "nextAddr (onSocket p f s) = nextAddr s" "sendRequests (onSocket p f s) = sendRequests s"
  "kernel (onSocket p f s) = kernel s" "trace (onSocket p f s) = trace s"
  by (simp_all add: onSocket_def)

lemma allocWebSocket_proj:
  "fst (allocWebSocket env d a h s) = nextAddr s"
  "pollingSockets (snd (allocWebSocket env d a h s)) = pollingSockets s"
  "heap (snd (allocWebSocket env d a h s)) =
     (heap s)(nextAddr s := new_TEpollWebSocket (createUuid env (nextAddr s)) d a h)"
  by (simp_all add: allocWebSocket_def)

lemma switchToWebSocket_registry:
  assumes "sock \<noteq> nextAddr s"
    and "pollingSockets (switchToWebSocket env sd sock s) k = Some q"
  shows "q = nextAddr s \<or> (pollingSockets s k = Some q \<and> k \<noteq> socketUuid (heap s sock))"
  using assms(2)
  apply (simp only: switchToWebSocket_def Let_def split_beta emit_proj allocWebSocket_proj)
  apply (drule addPoll_registry)
  using assms(1)
  apply (auto simp add: onSocket_proj deletePoll_registry allocWebSocket_proj emit_proj
      split: if_splits)
  done

subsection \<open>The queue and the two loops\<close>

lemma produce_enqueue: "produce r s = enqueue (queued r) s"
  by (cases r) (simp_all add: setSendData_def setSendData5_def setDisconnect_def
      setSwitchToWebSocket_def Let_def)

lemma produceAll_queue:
  "produceAll rs s = s\<lparr>sendRequests := sendRequests s @ map queued rs\<rparr>"
  by (induction rs arbitrary: s) (simp_all add: produce_enqueue enqueue_def)

lemma dispatchLoop_append:
  "dispatchLoop env (xs @ ys) s = dispatchLoop env ys (dispatchLoop env xs s)"
  by (induction xs arbitrary: s) simp_all

lemma dispatchLoop_foldl:
  "dispatchLoop env xs s = foldl (\<lambda>st sd. applySendData env sd st) s xs"
  by (induction xs arbitrary: s) simp_all

lemma applySendData_Send_live:
  assumes "pollingSockets s u = Some p" and "p \<noteq> NULL" and "0 < socketDescriptor (heap s p)"
  shows "applySendData env (TSendData_buf Send u buf) s =
           snd (modifyPoll env p (EPOLLIN OR EPOLLOUT OR EPOLLET)
                  (onSocket p (enqueueSendData buf) s))"
  using assms by (simp add: applySendData_def lookupSocket_def TSendData_buf_def)

lemma applySendData_Disconnect_live:
  assumes "pollingSockets s u = Some p" and "p \<noteq> NULL" and "0 < socketDescriptor (heap s p)"
  shows "applySendData env (TSendData_buf Disconnect u buf) s =
           onSocket p deleteLater (onSocket p close (snd (deletePoll env p s)))"
  using assms by (simp add: applySendData_def lookupSocket_def TSendData_buf_def method_simps)

lemma send_send_disconnect:
  fixes env :: "'k env" and s :: "'k TEpoll" and b1 b2 :: QByteArray
  assumes reg: "pollingSockets s u = Some p" and nn: "p \<noteq> NULL"
    and live: "0 < socketDescriptor (heap s p)" and key: "socketUuid (heap s p) = u"
  defines "s1 \<equiv> applySendData env (TSendData_buf Send u (Some (createSendBuffer b1))) s"
  defines "s2 \<equiv> applySendData env (TSendData_buf Send u (Some (createSendBuffer b2))) s1"
  defines "s3 \<equiv> applySendData env (TSendData_buf Disconnect u None) s2"
  shows "sendBuf (heap s3 p) =
           sendBuf (heap s p) @ [Some (createSendBuffer b1), Some (createSendBuffer b2)]
         \<and> closed (heap s3 p) \<and> retired (heap s3 p) \<and> pollingSockets s3 u = None
         \<and> sendRequests s3 = sendRequests s"
proof -
  have e1: "s1 = snd (modifyPoll env p (EPOLLIN OR EPOLLOUT OR EPOLLET)
                  (onSocket p (enqueueSendData (Some (createSendBuffer b1))) s))"
    unfolding s1_def by (rule applySendData_Send_live [OF reg nn live])
  have h1: "heap s1 = (heap s)(p := enqueueSendData (Some (createSendBuffer b1)) (heap s p))"
    and r1: "pollingSockets s1 = pollingSockets s" and q1: "sendRequests s1 = sendRequests s"
    by (simp_all add: e1 modifyPoll_frame onSocket_def)
  have l1: "0 < socketDescriptor (heap s1 p)"
    using live by (simp add: h1 enqueueSendData_def)
  have e2: "s2 = snd (modifyPoll env p (EPOLLIN OR EPOLLOUT OR EPOLLET)
                  (onSocket p (enqueueSendData (Some (createSendBuffer b2))) s1))"
    unfolding s2_def by (rule applySendData_Send_live [OF _ nn l1]) (simp add: r1 reg)
  have h2: "heap s2 = (heap s1)(p := enqueueSendData (Some (createSendBuffer b2)) (heap s1 p))"
    and r2: "pollingSockets s2 = pollingSockets s" and q2: "sendRequests s2 = sendRequests s"
    by (simp_all add: e2 modifyPoll_frame onSocket_def r1 q1)
  have l2: "0 < socketDescriptor (heap s2 p)"
    using l1 by (simp add: h2 enqueueSendData_def)
  have e3: "s3 = onSocket p deleteLater (onSocket p close (snd (deletePoll env p s2)))"
    unfolding s3_def by (rule applySendData_Disconnect_live [OF _ nn l2]) (simp add: r2 reg)
  show ?thesis
    using key
    by (simp add: e3 onSocket_def deletePoll_frame deletePoll_registry h2 h1 q2
        enqueueSendData_def close_def deleteLater_def)
qed

subsection \<open>The payload loop of the worker\<close>

lemma sendEntry_valid:
  "spec_entryAction we u v = Some a \<Longrightarrow> sendEntry we u v s = enqueue a s"
  by (auto simp: spec_entryAction_def sendEntry_def ws_sendText_def ws_sendBinary_def
      ws_sendPing_def ws_sendPong_def ws_disconnect_def setSendData_def setDisconnect_def
      split: QVariant.splits if_splits)

lemma sendEntry_invalid:
  "spec_entryAction we u v = None \<Longrightarrow> sendEntry we u v s = emit Error_invalid_logic s"
  by (auto simp: spec_entryAction_def sendEntry_def split: QVariant.splits if_splits)

lemma sendPayload_valid:
  "\<forall>v \<in> set pl. spec_entryAction we u v \<noteq> None \<Longrightarrow>
   sendPayload we u pl s =
     s\<lparr>sendRequests := sendRequests s @ map (\<lambda>v. the (spec_entryAction we u v)) pl\<rparr>"
proof (induction pl arbitrary: s)
  case Nil
  show ?case by simp
next
  case (Cons v pl)
  from Cons.prems obtain a where a: "spec_entryAction we u v = Some a" by auto
  from Cons.prems have rest: "\<forall>v \<in> set pl. spec_entryAction we u v \<noteq> None" by simp
  show ?case
    by (simp add: sendEntry_valid [OF a] Cons.IH [OF rest] a enqueue_def)
qed

lemma sendPayload_queue:
  "sendRequests (sendPayload we u pl s) =
     sendRequests s @ List.map_filter (spec_entryAction we u) pl"
proof (induction pl arbitrary: s)
  case Nil
  show ?case by (simp add: List.map_filter_simps)
next
  case (Cons v pl)
  show ?case
    by (cases "spec_entryAction we u v")
       (simp_all add: Cons.IH sendEntry_valid sendEntry_invalid List.map_filter_simps
          enqueue_def emit_def)
qed

lemma handleOpcode_queue: "sendRequests (snd (handleOpcode ep w s)) = sendRequests s"
  by (simp add: handleOpcode_def emit_def)

lemma handleOpcode_payload: "fst (handleOpcode ep w s) = fst (handleOpcode ep w t)"
  by (simp add: handleOpcode_def)

lemma run_queue:
  assumes "dispatcherObject we (endpointName we w) = Some ep"
  shows "sendRequests (run we w s) =
           sendRequests s @ List.map_filter (spec_entryAction we (w_socketUuid w))
                              (fst (handleOpcode ep w s))"
proof -
  let ?s0 = "emit (SystemDebug_opcode (opcode w))
               (emit (SystemDebug_found_endpoint (endpointName we w)) s)"
  have "run we w s = sendPayload we (w_socketUuid w) (fst (handleOpcode ep w ?s0))
                       (snd (handleOpcode ep w ?s0))"
    using assms by (simp add: run_def Let_def split_beta)
  moreover have "sendRequests (snd (handleOpcode ep w ?s0)) = sendRequests s"
    by (simp add: handleOpcode_queue emit_def)
  ultimately show ?thesis
    by (simp add: sendPayload_queue handleOpcode_payload [of ep w ?s0 s])
qed

section \<open>The reactor's claims\<close>

subsection \<open>Order of application\<close>

text \<open>
  C1. Draining the send queue applies the queued actions in exactly their enqueue
  order: after the producers have enqueued the requests \<open>rs\<close>, \<open>dispatchSendData\<close>
  first applies what was queued before and then the actions of \<open>rs\<close> one after the
  other, first to last; this holds for every sequence of Send, Disconnect and
  SwitchToWebSocket actions, in particular for one that names a single UUID. For a
  registered live connection the sequence Send \<open>b1\<close>, Send \<open>b2\<close>, Disconnect leaves
  \<open>b1\<close> then \<open>b2\<close> at the end of its outgoing buffer and the connection closed,
  retired and unregistered: bytes, bytes, then close.
\<close>

theorem dispatchSendData_applies_in_enqueue_order:
  "dispatchSendData env (produceAll rs s) =
     foldl (\<lambda>st r. applySendData env (queued r) st) (dispatchSendData env s) rs
   \<and> (pollingSockets s u = Some p \<and> p \<noteq> NULL \<and> 0 < socketDescriptor (heap s p)
        \<and> socketUuid (heap s p) = u \<and> sendRequests s = []
      \<longrightarrow> (let s' = dispatchSendData env
                       (produceAll [ReqSend u b1, ReqSend u b2, ReqDisconnect u] s)
           in sendBuf (heap s' p) =
                sendBuf (heap s p) @ [Some (createSendBuffer b1), Some (createSendBuffer b2)]
            \<and> closed (heap s' p) \<and> retired (heap s' p)
            \<and> pollingSockets s' u = None \<and> sendRequests s' = []))"
proof -
  have order: "dispatchSendData env (produceAll rs s) =
      foldl (\<lambda>st r. applySendData env (queued r) st) (dispatchSendData env s) rs" for rs
    by (simp add: dispatchSendData_def dequeue_def produceAll_queue dispatchLoop_append
        dispatchLoop_foldl foldl_map)
  have idle: "dispatchSendData env s = s" if "sendRequests s = []"
    using that by (cases s) (simp add: dispatchSendData_def dequeue_def)
  have three: "dispatchSendData env (produceAll [ReqSend u b1, ReqSend u b2, ReqDisconnect u] s) =
      applySendData env (TSendData_buf Disconnect u None)
        (applySendData env (TSendData_buf Send u (Some (createSendBuffer b2)))
          (applySendData env (TSendData_buf Send u (Some (createSendBuffer b1))) s))"
    if "sendRequests s = []"
    by (simp only: order idle [OF that] foldl.simps queued.simps)
  have ssd: "sendBuf (heap s' p) =
          sendBuf (heap s p) @ [Some (createSendBuffer b1), Some (createSendBuffer b2)]
        \<and> closed (heap s' p) \<and> retired (heap s' p)
        \<and> pollingSockets s' u = None \<and> sendRequests s' = []"
    if reg: "pollingSockets s u = Some p" and nn: "p \<noteq> NULL"
      and live: "0 < socketDescriptor (heap s p)" and key: "socketUuid (heap s p) = u"
      and empty: "sendRequests s = []"
      and s': "s' = dispatchSendData env
                      (produceAll [ReqSend u b1, ReqSend u b2, ReqDisconnect u] s)"
    for s'
    using send_send_disconnect [OF reg nn live key, where env = env and ?b1.0 = b1 and ?b2.0 = b2]
    by (simp only: s' three [OF empty] empty)
  show ?thesis
  proof (intro conjI impI)
    show "dispatchSendData env (produceAll rs s) =
        foldl (\<lambda>st r. applySendData env (queued r) st) (dispatchSendData env s) rs"
      by (rule order)
  next
    assume a: "pollingSockets s u = Some p \<and> p \<noteq> NULL \<and> 0 < socketDescriptor (heap s p)
        \<and> socketUuid (heap s p) = u \<and> sendRequests s = []"
    then have reg: "pollingSockets s u = Some p" and nn: "p \<noteq> NULL"
      and live: "0 < socketDescriptor (heap s p)" and key: "socketUuid (heap s p) = u"
      and empty: "sendRequests s = []"
      by blast+
    show "let s' = dispatchSendData env
                       (produceAll [ReqSend u b1, ReqSend u b2, ReqDisconnect u] s)
           in sendBuf (heap s' p) =
                sendBuf (heap s p) @ [Some (createSendBuffer b1), Some (createSendBuffer b2)]
            \<and> closed (heap s' p) \<and> retired (heap s' p)
            \<and> pollingSockets s' u = None \<and> sendRequests s' = []"
      unfolding Let_def by (rule ssd [OF reg nn live key empty refl])
  qed
qed

text \<open>
  The interleaved run: two Sends and a Disconnect for \<open>u1\<close>, a Send for the unknown
  \<open>u2\<close> between them and a late Send for \<open>u1\<close> after them.
\<close>

theorem dispatchSendData_applies_in_enqueue_order_witness:
  "pollingSockets reg5 ''u1'' = Some 1 \<and> (1 :: addr) \<noteq> NULL
   \<and> 0 < socketDescriptor (heap reg5 1) \<and> socketUuid (heap reg5 1) = ''u1''
   \<and> sendRequests reg5 = []
   \<and> sendBuf (heap (dispatchSendData env0
         (produceAll [ReqSend ''u1'' ''aaa'', ReqSend ''u1'' ''bbb'', ReqDisconnect ''u1''] reg5)) 1)
       = [Some (createSendBuffer ''aaa''), Some (createSendBuffer ''bbb'')]
   \<and> closed (heap (dispatchSendData env0
         (produceAll [ReqSend ''u1'' ''aaa'', ReqSend ''u1'' ''bbb'', ReqDisconnect ''u1''] reg5)) 1)
   \<and> sendBuf (heap (dispatchSendData env0
         (produceAll [ReqSend ''u1'' ''aaa'', ReqSend ''u2'' ''zzz'', ReqSend ''u1'' ''bbb'',
                      ReqDisconnect ''u1'', ReqSend ''u1'' ''ccc''] reg5)) 1)
       = [Some (createSendBuffer ''aaa''), Some (createSendBuffer ''bbb'')]
   \<and> closed (heap (dispatchSendData env0
         (produceAll [ReqSend ''u1'' ''aaa'', ReqSend ''u2'' ''zzz'', ReqSend ''u1'' ''bbb'',
                      ReqDisconnect ''u1'', ReqSend ''u1'' ''ccc''] reg5)) 1)
   \<and> trace (dispatchSendData env0
         (produceAll [ReqSend ''u1'' ''aaa'', ReqSend ''u2'' ''zzz'', ReqSend ''u1'' ''bbb'',
                      ReqDisconnect ''u1'', ReqSend ''u1'' ''ccc''] reg5))
       = [Sys_epoll_ctl EPOLL_CTL_MOD 5 (Some (EPOLLIN OR EPOLLOUT OR EPOLLET, 1)),
          SystemDebug_epoll_ctl EPOLL_CTL_MOD 5,
          Sys_epoll_ctl EPOLL_CTL_MOD 5 (Some (EPOLLIN OR EPOLLOUT OR EPOLLET, 1)),
          SystemDebug_epoll_ctl EPOLL_CTL_MOD 5,
          Sys_epoll_ctl EPOLL_CTL_DEL 5 None,
          SystemDebug_epoll_ctl EPOLL_CTL_DEL 5]"
proof -
  have h: "pollingSockets reg5 ''u1'' = Some 1 \<and> (1 :: addr) \<noteq> NULL
      \<and> 0 < socketDescriptor (heap reg5 1) \<and> socketUuid (heap reg5 1) = ''u1''
      \<and> sendRequests reg5 = []"
    by (simp add: state0_simps)
  have b: "sendBuf (heap reg5 (Suc 0)) = []"
    by (simp add: state0_simps)
  note t = dispatchSendData_applies_in_enqueue_order
    [where env = env0 and s = reg5 and u = "''u1''" and p = 1 and ?b1.0 = "''aaa''"
       and ?b2.0 = "''bbb''"]
  have short: "sendBuf (heap (dispatchSendData env0
         (produceAll [ReqSend ''u1'' ''aaa'', ReqSend ''u1'' ''bbb'', ReqDisconnect ''u1''] reg5)) 1)
       = [Some (createSendBuffer ''aaa''), Some (createSendBuffer ''bbb'')]
     \<and> closed (heap (dispatchSendData env0
         (produceAll [ReqSend ''u1'' ''aaa'', ReqSend ''u1'' ''bbb'', ReqDisconnect ''u1''] reg5)) 1)"
    using t [THEN conjunct2, rule_format, OF h] by (simp add: Let_def b)
  have idle: "dispatchSendData env0 reg5 = reg5"
    by (simp add: dispatchSendData_def dequeue_def state0_simps)
  have long: "dispatchSendData env0
         (produceAll [ReqSend ''u1'' ''aaa'', ReqSend ''u2'' ''zzz'', ReqSend ''u1'' ''bbb'',
                      ReqDisconnect ''u1'', ReqSend ''u1'' ''ccc''] reg5)
       = foldl (\<lambda>st r. applySendData env0 (queued r) st) reg5
           [ReqSend ''u1'' ''aaa'', ReqSend ''u2'' ''zzz'', ReqSend ''u1'' ''bbb'',
            ReqDisconnect ''u1'', ReqSend ''u1'' ''ccc'']"
    using t [THEN conjunct1, of "[ReqSend ''u1'' ''aaa'', ReqSend ''u2'' ''zzz'',
       ReqSend ''u1'' ''bbb'', ReqDisconnect ''u1'', ReqSend ''u1'' ''ccc'']"]
    by (simp only: idle)
  have run: "sendBuf (heap (foldl (\<lambda>st r. applySendData env0 (queued r) st) reg5
           [ReqSend ''u1'' ''aaa'', ReqSend ''u2'' ''zzz'', ReqSend ''u1'' ''bbb'',
            ReqDisconnect ''u1'', ReqSend ''u1'' ''ccc'']) 1)
       = [Some (createSendBuffer ''aaa''), Some (createSendBuffer ''bbb'')]
     \<and> closed (heap (foldl (\<lambda>st r. applySendData env0 (queued r) st) reg5
           [ReqSend ''u1'' ''aaa'', ReqSend ''u2'' ''zzz'', ReqSend ''u1'' ''bbb'',
            ReqDisconnect ''u1'', ReqSend ''u1'' ''ccc'']) 1)
     \<and> trace (foldl (\<lambda>st r. applySendData env0 (queued r) st) reg5
           [ReqSend ''u1'' ''aaa'', ReqSend ''u2'' ''zzz'', ReqSend ''u1'' ''bbb'',
            ReqDisconnect ''u1'', ReqSend ''u1'' ''ccc''])
       = [Sys_epoll_ctl EPOLL_CTL_MOD 5 (Some (EPOLLIN OR EPOLLOUT OR EPOLLET, 1)),
          SystemDebug_epoll_ctl EPOLL_CTL_MOD 5,
          Sys_epoll_ctl EPOLL_CTL_MOD 5 (Some (EPOLLIN OR EPOLLOUT OR EPOLLET, 1)),
          SystemDebug_epoll_ctl EPOLL_CTL_MOD 5,
          Sys_epoll_ctl EPOLL_CTL_DEL 5 None,
          SystemDebug_epoll_ctl EPOLL_CTL_DEL 5]"
    by (simp add: applySendData_def lookupSocket_def TSendData_buf_def method_simps
        modifyPoll_def deletePoll_def call_epoll_ctl_def emit_def onSocket_def
        socket_simps kernel0_simps state0_simps mask_simps)
  show ?thesis
    using h short run by (simp only: long) simp
qed

subsection \<open>A Send for a connection that is gone\<close>

text \<open>
  C2. Applying a Send action whose UUID is not in the registry is a no-op: no buffer is
  appended (the store of socket objects is unchanged), no poll interest is modified (no
  system call, the kernel's state is unchanged), nothing is written and no error is
  logged (the trace is unchanged), and nothing fails. The only change is the one the
  lookup itself makes: \<open>pollingSockets[uuid]\<close> leaves a null entry for the UUID, so
  every entry that points to a connection is as before.
\<close>

theorem applySendData_Send_absent_is_noop:
  assumes "pollingSockets s u = None" and "sd_method sd = Send" and "uuid sd = u"
  shows "applySendData env sd s = s\<lparr>pollingSockets := (pollingSockets s)(u \<mapsto> NULL)\<rparr>
       \<and> heap (applySendData env sd s) = heap s
       \<and> kernel (applySendData env sd s) = kernel s
       \<and> trace (applySendData env sd s) = trace s
       \<and> sendRequests (applySendData env sd s) = sendRequests s
       \<and> (\<forall>k q. q \<noteq> NULL \<longrightarrow>
             (pollingSockets (applySendData env sd s) k = Some q) = (pollingSockets s k = Some q))"
  using assms by (auto simp add: applySendData_def lookupSocket_def)

text \<open>The Send arrives after an explicit Disconnect for the same UUID.\<close>

theorem applySendData_Send_absent_is_noop_witness:
  "pollingSockets gone5 ''u1'' = None
   \<and> sd_method (TSendData_buf Send ''u1'' (Some (createSendBuffer ''late''))) = Send
   \<and> uuid (TSendData_buf Send ''u1'' (Some (createSendBuffer ''late''))) = ''u1''
   \<and> heap (applySendData env0 (TSendData_buf Send ''u1'' (Some (createSendBuffer ''late''))) gone5)
       = heap gone5
   \<and> kernel (applySendData env0 (TSendData_buf Send ''u1'' (Some (createSendBuffer ''late''))) gone5)
       = kernel gone5
   \<and> trace (applySendData env0 (TSendData_buf Send ''u1'' (Some (createSendBuffer ''late''))) gone5)
       = trace gone5"
proof -
  have h: "pollingSockets gone5 ''u1'' = None"
    by (simp add: gone5_def applySendData_def lookupSocket_def TSendData_buf_def method_simps
        deletePoll_def call_epoll_ctl_def emit_def onSocket_def kernel0_simps state0_simps)
  have m: "sd_method (TSendData_buf Send ''u1'' (Some (createSendBuffer ''late''))) = Send"
    and k: "uuid (TSendData_buf Send ''u1'' (Some (createSendBuffer ''late''))) = ''u1''"
    by (simp_all add: TSendData_buf_def)
  show ?thesis
    using h m k applySendData_Send_absent_is_noop [OF h m k, of env0] by simp
qed

subsection \<open>The upgrade\<close>

text \<open>
  C3. Applying an UpgradeToWebSocket action to a registered HTTP connection with
  descriptor D: afterwards a new connection object exists in WebSocket mode with the
  same descriptor D, neither closed nor retired; exactly one buffer, the handshake
  response, is on its outgoing buffer; the old connection is in no entry of the
  registry any more, is retired, is still in HTTP mode with its descriptor field reset
  to 0, and was not closed; nothing was added to its outgoing buffer.
\<close>

theorem switchToWebSocket_preserves_descriptor:
  assumes reg: "pollingSockets s u = Some p"
    and own: "\<forall>k. pollingSockets s k = Some p \<longrightarrow> k = u"
    and live: "p \<noteq> NULL" "0 < socketDescriptor (heap s p)"
    and key: "socketUuid (heap s p) = u"
    and http: "mode (heap s p) = HttpMode"
    and alloc: "p < nextAddr s"
  shows "let s' = applySendData env (TSendData_hdr SwitchToWebSocket u h) s;
             ws = nextAddr s
         in ws \<noteq> p
          \<and> mode (heap s' ws) = WebSocketMode
          \<and> socketDescriptor (heap s' ws) = socketDescriptor (heap s p)
          \<and> closed (heap s' ws) = False \<and> retired (heap s' ws) = False
          \<and> sendBuf (heap s' ws) =
               [Some (createSendBuffer (handshakeResponse env
                  (new_TEpollWebSocket (createUuid env ws) (socketDescriptor (heap s p))
                     (clientAddress (heap s p)) h)))]
          \<and> (\<forall>k. pollingSockets s' k \<noteq> Some p)
          \<and> mode (heap s' p) = HttpMode
          \<and> retired (heap s' p) = True
          \<and> closed (heap s' p) = closed (heap s p)
          \<and> sendBuf (heap s' p) = sendBuf (heap s p)
          \<and> socketDescriptor (heap s' p) = 0"
proof -
  let ?sd = "TSendData_hdr SwitchToWebSocket u h"
  have ne: "p \<noteq> nextAddr s" using alloc by simp
  have look: "applySendData env ?sd s = switchToWebSocket env ?sd p s"
    using reg live
    by (simp add: applySendData_def lookupSocket_def TSendData_hdr_def method_simps)
  have unreg: "pollingSockets (switchToWebSocket env ?sd p s) k \<noteq> Some p" for k
  proof
    assume "pollingSockets (switchToWebSocket env ?sd p s) k = Some p"
    from switchToWebSocket_registry [OF ne this] ne own key show False by auto
  qed
  have hh: "header ?sd = h"
    by (simp add: TSendData_hdr_def)
  show ?thesis
    unfolding Let_def look
    using ne http
    by (simp add: switchToWebSocket_heap [OF ne] unreg socket_simps hh)
qed

theorem switchToWebSocket_preserves_descriptor_witness:
  "pollingSockets reg5 ''u1'' = Some 1 \<and> (1 :: addr) \<noteq> NULL
   \<and> 0 < socketDescriptor (heap reg5 1)
   \<and> socketUuid (heap reg5 1) = ''u1'' \<and> mode (heap reg5 1) = HttpMode \<and> 1 < nextAddr reg5
   \<and> socketDescriptor (heap reg5 1) = 5
   \<and> mode (heap (applySendData env0 (TSendData_hdr SwitchToWebSocket ''u1'' emptyHeader) reg5) 2)
       = WebSocketMode
   \<and> socketDescriptor
       (heap (applySendData env0 (TSendData_hdr SwitchToWebSocket ''u1'' emptyHeader) reg5) 2) = 5
   \<and> sendBuf (heap (applySendData env0 (TSendData_hdr SwitchToWebSocket ''u1'' emptyHeader) reg5) 2)
        = [Some (createSendBuffer ''HTTP/1.1 101 Switching Protocols'')]
   \<and> pollingSockets (applySendData env0 (TSendData_hdr SwitchToWebSocket ''u1'' emptyHeader) reg5)
        ''u1'' \<noteq> Some 1
   \<and> retired (heap (applySendData env0 (TSendData_hdr SwitchToWebSocket ''u1'' emptyHeader) reg5) 1)
   \<and> \<not> closed (heap (applySendData env0 (TSendData_hdr SwitchToWebSocket ''u1'' emptyHeader) reg5) 1)
   \<and> socketDescriptor
       (heap (applySendData env0 (TSendData_hdr SwitchToWebSocket ''u1'' emptyHeader) reg5) 1) = 0"
proof -
  have reg: "pollingSockets reg5 ''u1'' = Some 1"
    and own: "\<forall>k. pollingSockets reg5 k = Some 1 \<longrightarrow> k = ''u1''"
    and live: "(1 :: addr) \<noteq> NULL" "0 < socketDescriptor (heap reg5 1)"
    and key: "socketUuid (heap reg5 1) = ''u1''"
    and http: "mode (heap reg5 1) = HttpMode"
    and alloc: "1 < nextAddr reg5"
    by (simp_all add: state0_simps)
  have v: "socketDescriptor (heap reg5 (Suc 0)) = 5" "nextAddr reg5 = 2"
    "closed (heap reg5 (Suc 0)) = False"
    by (simp_all add: state0_simps)
  have r: "handshakeResponse env0 x = ''HTTP/1.1 101 Switching Protocols''" for x
    by (simp add: env0_def)
  show ?thesis
    using reg live key http alloc
      switchToWebSocket_preserves_descriptor [OF reg own live key http alloc, of env0 emptyHeader]
    by (simp add: Let_def v r)
qed

subsection \<open>Registration when the kernel already knows the descriptor\<close>

text \<open>
  C4, as the code has it. When \<open>epoll_ctl(EPOLL_CTL_ADD)\<close> fails with \<open>EEXIST\<close> (the
  descriptor is already registered), \<open>addPoll\<close> logs no failure: the trace gains the
  system call and nothing else. It does not treat the outcome as success: it returns
  false and does not insert the connection into the registry.
\<close>

theorem addPoll_already_registered:
  assumes "evs \<noteq> 0"
    and "tf_epoll_ctl env (kernel s) (epollFd s) EPOLL_CTL_ADD (socketDescriptor (heap s p))
           (Some (evs, p)) = (ret, EEXIST, k')"
    and "ret < 0"
  shows "addPoll env p evs s =
           (False, s\<lparr>kernel := k',
                     trace := trace s @ [Sys_epoll_ctl EPOLL_CTL_ADD (socketDescriptor (heap s p))
                                           (Some (evs, p))]\<rparr>)"
  using assms by (simp add: addPoll_def call_epoll_ctl_def emit_def)

theorem addPoll_already_registered_witness:
  "EPOLLIN OR EPOLLOUT OR EPOLLET \<noteq> 0
   \<and> tf_epoll_ctl env0 (kernel reg5) (epollFd reg5) EPOLL_CTL_ADD (socketDescriptor (heap reg5 1))
         (Some (EPOLLIN OR EPOLLOUT OR EPOLLET, 1)) = (- 1, EEXIST, [5])
   \<and> addPoll env0 1 (EPOLLIN OR EPOLLOUT OR EPOLLET) reg5 =
       (False, reg5\<lparr>trace := [Sys_epoll_ctl EPOLL_CTL_ADD 5
                                  (Some (EPOLLIN OR EPOLLOUT OR EPOLLET, 1))]\<rparr>)"
proof -
  have m: "EPOLLIN OR EPOLLOUT OR EPOLLET \<noteq> 0"
    by (simp add: mask_simps)
  have c: "tf_epoll_ctl env0 (kernel reg5) (epollFd reg5) EPOLL_CTL_ADD
             (socketDescriptor (heap reg5 1)) (Some (EPOLLIN OR EPOLLOUT OR EPOLLET, 1))
           = (- 1, EEXIST, [5])"
    by (simp add: kernel0_simps state0_simps)
  have n: "(- 1 :: int) < 0"
    by simp
  show ?thesis
    using m c addPoll_already_registered [OF m c n]
    by (simp add: state0_simps)
qed

text \<open>
  The claim as stated fails where the kernel knows descriptor 5 and the registry does
  not hold the connection: the add reports \<open>EEXIST\<close>, \<open>addPoll\<close> returns false, and
  the connection is still missing from the registry.
\<close>

theorem addPoll_already_registered_counterexample:
  "tf_epoll_ctl env0 (kernel unreg5) (epollFd unreg5) EPOLL_CTL_ADD
       (socketDescriptor (heap unreg5 1)) (Some (EPOLLIN OR EPOLLOUT OR EPOLLET, 1))
     = (- 1, EEXIST, [5])
   \<and> fst (addPoll env0 1 (EPOLLIN OR EPOLLOUT OR EPOLLET) unreg5) = False
   \<and> pollingSockets (snd (addPoll env0 1 (EPOLLIN OR EPOLLOUT OR EPOLLET) unreg5)) ''u1'' = None"
  by (simp add: addPoll_def call_epoll_ctl_def emit_def unreg5_def kernel0_simps state0_simps
      mask_simps)

subsection \<open>Unregistration\<close>

text \<open>
  C5, as the code has it. \<open>deletePoll\<close> removes the connection from the registry
  first. When the connection's UUID is not in the registry it returns false at once:
  no system call is made, nothing is logged, the state is unchanged. Otherwise it then
  issues \<open>EPOLL_CTL_DEL\<close> for the descriptor, logs a failure only when the call
  failed with an error other than \<open>ENOENT\<close>, and returns whether the call returned 0.
\<close>

theorem deletePoll_registry_first:
  "(pollingSockets s (socketUuid (heap s p)) = None \<longrightarrow> deletePoll env p s = (False, s))
   \<and> (pollingSockets s (socketUuid (heap s p)) \<noteq> None
        \<and> tf_epoll_ctl env (kernel s) (epollFd s) EPOLL_CTL_DEL (socketDescriptor (heap s p)) None
            = (ret, err, k')
      \<longrightarrow> deletePoll env p s =
            (ret = 0,
             s\<lparr>pollingSockets := (pollingSockets s)(socketUuid (heap s p) := None),
               kernel := k',
               trace := trace s @
                 [Sys_epoll_ctl EPOLL_CTL_DEL (socketDescriptor (heap s p)) None,
                  if ret < 0 \<and> err \<noteq> ENOENT
                  then SystemError_epoll_ctl EPOLL_CTL_DEL (socketDescriptor (heap s p)) err
                  else SystemDebug_epoll_ctl EPOLL_CTL_DEL (socketDescriptor (heap s p))]\<rparr>))"
  by (simp add: deletePoll_def call_epoll_ctl_def emit_def)

theorem deletePoll_registry_first_witness:
  "pollingSockets unreg5 (socketUuid (heap unreg5 1)) = None
   \<and> deletePoll env0 1 unreg5 = (False, unreg5)
   \<and> pollingSockets reg5 (socketUuid (heap reg5 1)) \<noteq> None
   \<and> tf_epoll_ctl env0 (kernel reg5) (epollFd reg5) EPOLL_CTL_DEL (socketDescriptor (heap reg5 1))
        None = (0, 0, [])
   \<and> deletePoll env0 1 reg5 =
       (True, reg5\<lparr>pollingSockets := Map.empty, kernel := [],
                   trace := [Sys_epoll_ctl EPOLL_CTL_DEL 5 None,
                             SystemDebug_epoll_ctl EPOLL_CTL_DEL 5]\<rparr>)"
proof -
  have a: "pollingSockets unreg5 (socketUuid (heap unreg5 1)) = None"
    by (simp add: unreg5_def state0_simps)
  have b: "pollingSockets reg5 (socketUuid (heap reg5 1)) \<noteq> None
      \<and> tf_epoll_ctl env0 (kernel reg5) (epollFd reg5) EPOLL_CTL_DEL
          (socketDescriptor (heap reg5 1)) None = (0, 0, [])"
    by (simp add: kernel0_simps state0_simps)
  have v: "socketUuid (heap reg5 (Suc 0)) = ''u1''" "socketDescriptor (heap reg5 (Suc 0)) = 5"
    "pollingSockets reg5 = [''u1'' \<mapsto> Suc 0]" "trace reg5 = []"
    by (simp_all add: state0_simps)
  show ?thesis
    using a b
      deletePoll_registry_first [where s = unreg5 and p = 1 and env = env0, THEN conjunct1,
        rule_format, OF a]
      deletePoll_registry_first [where s = reg5 and p = 1 and env = env0 and ret = 0
        and err = 0 and k' = "[]", THEN conjunct2, rule_format, OF b]
    by (simp add: v)
qed

text \<open>
  The claim as stated fails where the kernel knows descriptor 5 and the registry does
  not hold the connection: \<open>deletePoll\<close> makes no system call, so the descriptor
  stays in the readiness mechanism, and the result is false.
\<close>

theorem deletePoll_registry_first_counterexample:
  "pollingSockets unreg5 ''u1'' = None
   \<and> kernel unreg5 = [5]
   \<and> fst (deletePoll env0 1 unreg5) = False
   \<and> kernel (snd (deletePoll env0 1 unreg5)) = [5]
   \<and> trace (snd (deletePoll env0 1 unreg5)) = []"
  by (simp add: deletePoll_def unreg5_def state0_simps)

section \<open>The frame worker's claims\<close>

subsection \<open>The opening event\<close>

text \<open>
  C6 does not hold of the code. For an Open event whose endpoint resolves and whose
  session has a non-empty identifier, \<open>run\<close> logs "Invalid logic" and does not invoke
  \<open>onOpen\<close>: the trace gains the two debug lines and the error, no callback, and
  nothing is queued.
\<close>

theorem run_open_with_session_id:
  assumes "dispatcherObject we (endpointName we w) = Some ep"
    and "opcode w = Continuation"
    and "session_id (sessionStore w) \<noteq> []"
  shows "run we w s =
           s\<lparr>trace := trace s @
               [SystemDebug_found_endpoint (endpointName we w), SystemDebug_opcode (opcode w),
                Error_invalid_logic]\<rparr>"
  using assms by (simp add: run_def handleOpcode_def emit_def Let_def)

text \<open>The session that \<open>dispatchSendData\<close> resolves from the cookie \<open>abc\<close>.\<close>

theorem run_open_with_session_id_witness:
  "dispatcherObject wenv0 (endpointName wenv0 (TWebSocketWorker_open ''ws-uuid'' (findSession env0 ''abc'')))
     = Some echo
   \<and> opcode (TWebSocketWorker_open ''ws-uuid'' (findSession env0 ''abc'')) = Continuation
   \<and> session_id (sessionStore (TWebSocketWorker_open ''ws-uuid'' (findSession env0 ''abc''))) \<noteq> []
   \<and> trace (run wenv0 (TWebSocketWorker_open ''ws-uuid'' (findSession env0 ''abc'')) init0)
       = [SystemDebug_found_endpoint ''endpoint'', SystemDebug_opcode 0, Error_invalid_logic]
   \<and> sendRequests (run wenv0 (TWebSocketWorker_open ''ws-uuid'' (findSession env0 ''abc'')) init0)
       = []"
proof -
  let ?w = "TWebSocketWorker_open ''ws-uuid'' (findSession env0 ''abc'')"
  have n: "endpointName wenv0 ?w = ''endpoint''"
    by (simp add: endpointName_def wenv0_def TWebSocketWorker_open_def value0_def)
  have a: "dispatcherObject wenv0 (endpointName wenv0 ?w) = Some echo"
    by (simp add: n) (simp add: wenv0_def)
  have b: "opcode ?w = Continuation"
    by (simp add: TWebSocketWorker_open_def)
  have c: "session_id (sessionStore ?w) \<noteq> []"
    by (simp add: TWebSocketWorker_open_def env0_def)
  show ?thesis
    using a b c run_open_with_session_id [OF a b c, of init0]
    by (simp add: n init0_def Continuation_def)
qed

subsection \<open>Unknown opcodes\<close>

text \<open>
  C7, as the code has it. For a frame whose opcode is outside Continuation, Text,
  Binary, Close, Ping and Pong: when the endpoint of the frame resolves, the worker logs
  the invalid opcode as a warning and does nothing else; when no endpoint resolves, it
  does nothing at all and logs nothing. In both cases no callback is invoked and no
  action is queued, and the registry, the connections and the kernel's state are
  untouched, so the connection stays registered and open.
\<close>

theorem run_unknown_opcode:
  assumes "opcode w \<notin> {Continuation, TextFrame, BinaryFrame, Close, Ping, Pong}"
  shows "(dispatcherObject we (endpointName we w) = None \<longrightarrow> run we w s = s)
       \<and> (\<forall>ep. dispatcherObject we (endpointName we w) = Some ep \<longrightarrow>
            run we w s = s\<lparr>trace := trace s @
               [SystemDebug_found_endpoint (endpointName we w), SystemDebug_opcode (opcode w),
                Warn_invalid_opcode (opcode w)]\<rparr>)"
  using assms by (simp add: run_def handleOpcode_def emit_def Let_def)

theorem run_unknown_opcode_witness:
  "opcode (TWebSocketWorker_frame ''u1'' ''/chat'' 3 ''x'')
     \<notin> {Continuation, TextFrame, BinaryFrame, Close, Ping, Pong}
   \<and> dispatcherObject nowhere (endpointName nowhere (TWebSocketWorker_frame ''u1'' ''/chat'' 3 ''x''))
       = None
   \<and> run nowhere (TWebSocketWorker_frame ''u1'' ''/chat'' 3 ''x'') reg5 = reg5
   \<and> dispatcherObject wenv0 (endpointName wenv0 (TWebSocketWorker_frame ''u1'' ''/chat'' 3 ''x''))
       = Some echo
   \<and> run wenv0 (TWebSocketWorker_frame ''u1'' ''/chat'' 3 ''x'') reg5 =
       reg5\<lparr>trace := [SystemDebug_found_endpoint ''chatendpoint'', SystemDebug_opcode 3,
                       Warn_invalid_opcode 3]\<rparr>"
proof -
  let ?w = "TWebSocketWorker_frame ''u1'' ''/chat'' 3 ''x''"
  have o: "opcode ?w \<notin> {Continuation, TextFrame, BinaryFrame, Close, Ping, Pong}"
    by (simp add: TWebSocketWorker_frame_def opcode_simps)
  have n: "endpointName wenv0 ?w = ''chatendpoint''" "endpointName nowhere ?w = ''chatendpoint''"
    by (simp_all add: endpointName_def nowhere_def wenv0_def TWebSocketWorker_frame_def value0_def)
  have a: "dispatcherObject nowhere (endpointName nowhere ?w) = None"
    by (simp add: n) (simp add: nowhere_def)
  have b: "dispatcherObject wenv0 (endpointName wenv0 ?w) = Some echo"
    by (simp add: n) (simp add: wenv0_def)
  have v: "opcode ?w = 3" "trace reg5 = []"
    by (simp_all add: TWebSocketWorker_frame_def state0_simps)
  show ?thesis
    using o a b
      run_unknown_opcode [OF o, where we = nowhere and s = reg5, THEN conjunct1, rule_format, OF a]
      run_unknown_opcode [OF o, where we = wenv0 and s = reg5, THEN conjunct2, rule_format, OF b]
    by (simp add: n v)
qed

text \<open>
  The claim as stated fails for an opcode 3 frame on a path with no endpoint class: the
  worker returns without logging anything.
\<close>

theorem run_unknown_opcode_counterexample:
  "opcode (TWebSocketWorker_frame ''u1'' ''/chat'' 3 ''x'')
     \<notin> {Continuation, TextFrame, BinaryFrame, Close, Ping, Pong}
   \<and> trace (run nowhere (TWebSocketWorker_frame ''u1'' ''/chat'' 3 ''x'') reg5) = trace reg5
   \<and> Warn_invalid_opcode 3
       \<notin> set (trace (run nowhere (TWebSocketWorker_frame ''u1'' ''/chat'' 3 ''x'') reg5))"
  by (simp add: run_def endpointName_def nowhere_def wenv0_def TWebSocketWorker_frame_def
      value0_def opcode_simps state0_simps)

subsection \<open>Draining the output list\<close>

text \<open>
  C8. After the callback, the worker drains the output list in order and translates
  each entry into exactly one queued action, as the table of the specification has it:
  a text payload into a Send of a text frame, a binary payload into a Send of a binary
  frame, a close directive into a Disconnect, a ping or pong directive into a Send of
  that control frame. The queue grows by these actions in list order, one per entry,
  and nothing else changes. For a worker whose endpoint resolves, what \<open>run\<close> queues
  is this translation of the list the callback left.
\<close>

theorem sendPayload_translates_in_order:
  assumes "\<forall>v \<in> set pl. spec_entryAction we u v \<noteq> None"
  shows "sendPayload we u pl s =
           s\<lparr>sendRequests := sendRequests s @ map (\<lambda>v. the (spec_entryAction we u v)) pl\<rparr>
       \<and> length (sendRequests (sendPayload we u pl s)) = length (sendRequests s) + length pl
       \<and> (dispatcherObject we (endpointName we w) = Some ep \<longrightarrow>
            sendRequests (run we w t) =
              sendRequests t @ List.map_filter (spec_entryAction we (w_socketUuid w))
                                  (fst (handleOpcode ep w t)))"
  using assms by (simp add: sendPayload_valid run_queue)

theorem sendPayload_translates_in_order_witness:
  "list_all (\<lambda>v. spec_entryAction wenv0 ''u1'' v \<noteq> None)
      [QVariant_String ''hi'', QVariant_ByteArray ''xy'', QVariant_Int Ping,
       QVariant_Int Pong, QVariant_Int Close]
   \<and> sendRequests (sendPayload wenv0 ''u1''
         [QVariant_String ''hi'', QVariant_ByteArray ''xy'', QVariant_Int Ping,
          QVariant_Int Pong, QVariant_Int Close] init0)
       = [TSendData_buf Send ''u1'' (Some (createSendBuffer ''text:hi'')),
          TSendData_buf Send ''u1'' (Some (createSendBuffer ''binary:xy'')),
          TSendData_buf Send ''u1'' (Some (createSendBuffer ''ping:'')),
          TSendData_buf Send ''u1'' (Some (createSendBuffer ''pong:'')),
          TSendData_buf Disconnect ''u1'' None]
   \<and> dispatcherObject wenv0 (endpointName wenv0 (TWebSocketWorker_frame ''u1'' ''/chat'' TextFrame ''hi''))
       = Some echo
   \<and> sendRequests (run wenv0 (TWebSocketWorker_frame ''u1'' ''/chat'' TextFrame ''hi'') init0)
       = [TSendData_buf Send ''u1'' (Some (createSendBuffer ''text:hi''))]"
proof -
  let ?pl = "[QVariant_String ''hi'', QVariant_ByteArray ''xy'', QVariant_Int Ping,
              QVariant_Int Pong, QVariant_Int Close]"
  let ?w = "TWebSocketWorker_frame ''u1'' ''/chat'' TextFrame ''hi''"
  have a: "\<forall>v \<in> set ?pl. spec_entryAction wenv0 ''u1'' v \<noteq> None"
    by (simp add: spec_entryAction_def opcode_simps)
  have n: "endpointName wenv0 ?w = ''chatendpoint''"
    by (simp add: endpointName_def wenv0_def TWebSocketWorker_frame_def value0_def)
  have b: "dispatcherObject wenv0 (endpointName wenv0 ?w) = Some echo"
    by (simp add: n) (simp add: wenv0_def)
  have f: "frameBytes wenv0 = tagFrame"
    by (simp add: wenv0_def)
  have e: "sendRequests init0 = []"
    by (simp add: init0_def)
  have p: "fst (handleOpcode echo ?w init0) = [QVariant_String ''hi'']"
    by (simp add: handleOpcode_def TWebSocketWorker_frame_def echo_def opcode_simps)
  have u: "w_socketUuid ?w = ''u1''"
    by (simp add: TWebSocketWorker_frame_def)
  note t = sendPayload_translates_in_order [OF a, where s = init0 and w = ?w and ep = echo
      and t = init0]
  have q1: "sendRequests (sendPayload wenv0 ''u1'' ?pl init0)
       = [TSendData_buf Send ''u1'' (Some (createSendBuffer ''text:hi'')),
          TSendData_buf Send ''u1'' (Some (createSendBuffer ''binary:xy'')),
          TSendData_buf Send ''u1'' (Some (createSendBuffer ''ping:'')),
          TSendData_buf Send ''u1'' (Some (createSendBuffer ''pong:'')),
          TSendData_buf Disconnect ''u1'' None]"
    by (simp only: t [THEN conjunct1])
       (simp add: e spec_entryAction_def f tagFrame_def opcode_simps)
  have q2: "sendRequests (run wenv0 ?w init0)
       = [TSendData_buf Send ''u1'' (Some (createSendBuffer ''text:hi''))]"
  proof -
    have "sendRequests (run wenv0 ?w init0)
        = List.map_filter (spec_entryAction wenv0 ''u1'') [QVariant_String ''hi'']"
      using t [THEN conjunct2, THEN conjunct2, rule_format, OF b]
      by (simp only: e p u append_Nil)
    then show ?thesis
      by (simp add: List.map_filter_simps spec_entryAction_def f tagFrame_def opcode_simps)
  qed
  have a': "list_all (\<lambda>v. spec_entryAction wenv0 ''u1'' v \<noteq> None) ?pl"
    using a by (simp only: list_all_iff)
  show ?thesis
    using a' b q1 q2 by blast
qed

subsection \<open>Replies the worker adds itself\<close>

text \<open>
  C9. For a Ping frame whose endpoint resolves, the worker invokes \<open>onPing\<close> and then
  always appends the pong directive to the output list, whatever \<open>onPing\<close> emitted
  (also nothing), so the last action it queues is the Send of a pong frame. Likewise
  for a Close frame it invokes \<open>onClose\<close> and then always appends the close directive,
  so the last action it queues is the Disconnect.
\<close>

theorem run_ping_close_always_reply:
  assumes "dispatcherObject we (endpointName we w) = Some ep"
  shows "(opcode w = Ping \<longrightarrow>
            handleOpcode ep w s = (onPing ep @ [QVariant_Int Pong], emit Call_onPing s)
          \<and> sendRequests (run we w s) =
              sendRequests s @ List.map_filter (spec_entryAction we (w_socketUuid w)) (onPing ep)
                @ [TSendData_buf Send (w_socketUuid w)
                     (Some (createSendBuffer (frameBytes we Pong [])))])
       \<and> (opcode w = Close \<longrightarrow>
            handleOpcode ep w s = (onClose ep @ [QVariant_Int Close], emit Call_onClose s)
          \<and> sendRequests (run we w s) =
              sendRequests s @ List.map_filter (spec_entryAction we (w_socketUuid w)) (onClose ep)
                @ [TSendData_buf Disconnect (w_socketUuid w) None])"
proof -
  have p: "List.map_filter (spec_entryAction we u) (xs @ [QVariant_Int Pong]) =
        List.map_filter (spec_entryAction we u) xs
          @ [TSendData_buf Send u (Some (createSendBuffer (frameBytes we Pong [])))]" for u xs
    by (simp add: List.map_filter_def spec_entryAction_def opcode_simps)
  have c: "List.map_filter (spec_entryAction we u) (xs @ [QVariant_Int Close]) =
        List.map_filter (spec_entryAction we u) xs @ [TSendData_buf Disconnect u None]" for u xs
    by (simp add: List.map_filter_def spec_entryAction_def opcode_simps)
  note r = run_queue [OF assms, of s]
  have hp: "handleOpcode ep w s = (onPing ep @ [QVariant_Int Pong], emit Call_onPing s)"
    if "opcode w = Ping"
    using that
    by (simp add: handleOpcode_def sendPong_def Continuation_def TextFrame_def BinaryFrame_def
        Close_def Ping_def)
  have hc: "handleOpcode ep w s = (onClose ep @ [QVariant_Int Close], emit Call_onClose s)"
    if "opcode w = Close"
    using that
    by (simp add: handleOpcode_def closeWebSocket_def Continuation_def TextFrame_def
        BinaryFrame_def Close_def)
  show ?thesis
  proof (intro conjI impI)
    assume o: "opcode w = Ping"
    show "handleOpcode ep w s = (onPing ep @ [QVariant_Int Pong], emit Call_onPing s)"
      by (rule hp [OF o])
    show "sendRequests (run we w s) =
              sendRequests s @ List.map_filter (spec_entryAction we (w_socketUuid w)) (onPing ep)
                @ [TSendData_buf Send (w_socketUuid w)
                     (Some (createSendBuffer (frameBytes we Pong [])))]"
      by (simp add: r hp [OF o] p)
  next
    assume o: "opcode w = Close"
    show "handleOpcode ep w s = (onClose ep @ [QVariant_Int Close], emit Call_onClose s)"
      by (rule hc [OF o])
    show "sendRequests (run we w s) =
              sendRequests s @ List.map_filter (spec_entryAction we (w_socketUuid w)) (onClose ep)
                @ [TSendData_buf Disconnect (w_socketUuid w) None]"
      by (simp add: r hc [OF o] c)
  qed
qed

text \<open>The endpoint \<open>echo\<close> emits nothing on a Ping and nothing on a Close.\<close>

theorem run_ping_close_always_reply_witness:
  "dispatcherObject wenv0 (endpointName wenv0 (TWebSocketWorker_frame ''u1'' ''/chat'' Ping []))
     = Some echo
   \<and> opcode (TWebSocketWorker_frame ''u1'' ''/chat'' Ping []) = Ping
   \<and> onPing echo = []
   \<and> sendRequests (run wenv0 (TWebSocketWorker_frame ''u1'' ''/chat'' Ping []) init0)
       = [TSendData_buf Send ''u1'' (Some (createSendBuffer ''pong:''))]
   \<and> dispatcherObject wenv0 (endpointName wenv0 (TWebSocketWorker_frame ''u1'' ''/chat'' Close []))
       = Some echo
   \<and> opcode (TWebSocketWorker_frame ''u1'' ''/chat'' Close []) = Close
   \<and> onClose echo = []
   \<and> sendRequests (run wenv0 (TWebSocketWorker_frame ''u1'' ''/chat'' Close []) init0)
       = [TSendData_buf Disconnect ''u1'' None]"
proof -
  let ?wp = "TWebSocketWorker_frame ''u1'' ''/chat'' Ping []"
  let ?wc = "TWebSocketWorker_frame ''u1'' ''/chat'' Close []"
  have n: "endpointName wenv0 ?wp = ''chatendpoint''" "endpointName wenv0 ?wc = ''chatendpoint''"
    by (simp_all add: endpointName_def wenv0_def TWebSocketWorker_frame_def value0_def)
  have a: "dispatcherObject wenv0 (endpointName wenv0 ?wp) = Some echo"
    and b: "dispatcherObject wenv0 (endpointName wenv0 ?wc) = Some echo"
    by (simp_all add: n) (simp_all add: wenv0_def)
  have o: "opcode ?wp = Ping" "opcode ?wc = Close"
    and u: "w_socketUuid ?wp = ''u1''" "w_socketUuid ?wc = ''u1''"
    by (simp_all add: TWebSocketWorker_frame_def)
  have e: "onPing echo = []" "onClose echo = []" "sendRequests init0 = []"
    "frameBytes wenv0 Pong [] = ''pong:''"
    by (simp_all add: echo_def init0_def wenv0_def tagFrame_def opcode_simps)
  have q1: "sendRequests (run wenv0 ?wp init0)
       = [TSendData_buf Send ''u1'' (Some (createSendBuffer ''pong:''))]"
    using run_ping_close_always_reply [OF a, of init0, THEN conjunct1, rule_format, OF o(1)]
    by (simp add: e u List.map_filter_simps)
  have q2: "sendRequests (run wenv0 ?wc init0) = [TSendData_buf Disconnect ''u1'' None]"
    using run_ping_close_always_reply [OF b, of init0, THEN conjunct2, rule_format, OF o(2)]
    by (simp add: e u List.map_filter_simps)
  show ?thesis
    using a b o e(1,2) q1 q2 by blast
qed

section \<open>The event list's claim\<close>

text \<open>
  C10. When the event iterator is at or below zero (no \<open>next()\<close> since the last
  \<open>wait()\<close>), \<open>canReceive\<close> and \<open>canSend\<close> both return false; they do so whatever the
  event array holds, also for an empty one, so the array is not read and no read is out
  of bounds. The state right after \<open>wait()\<close> is such a state.
\<close>

theorem canReceive_canSend_before_next:
  assumes "eventIterator s \<le> 0"
  shows "canReceive s = Inr False \<and> canSend s = Inr False
         \<and> (\<forall>arr. canReceive (s\<lparr>events := arr\<rparr>) = Inr False
                \<and> canSend (s\<lparr>events := arr\<rparr>) = Inr False)
         \<and> eventIterator (snd (TEpoll_wait n err ready t)) = 0
         \<and> canReceive (snd (TEpoll_wait n err ready t)) = Inr False
         \<and> canSend (snd (TEpoll_wait n err ready t)) = Inr False"
  using assms by (simp add: canReceive_def canSend_def TEpoll_wait_def emit_def Let_def)

theorem canReceive_canSend_before_next_witness:
  "eventIterator (init0\<lparr>events := []\<rparr>) \<le> 0
   \<and> canReceive (init0\<lparr>events := []\<rparr>) = Inr False
   \<and> canSend (init0\<lparr>events := []\<rparr>) = Inr False"
proof -
  have h: "eventIterator (init0\<lparr>events := []\<rparr>) \<le> 0"
    by (simp add: init0_def)
  show ?thesis
    using h canReceive_canSend_before_next [OF h, of 0 0 "[]" init0] by simp
qed

end
